theory Spec2Isabelle
  imports Main "HOL-Library.Word" "HOL-Library.AList" "HOL-Library.Sublist"
begin

section \<open>Ownership wrappers around FFmpeg handles (torchaudio/csrc/ffmpeg/ffmpeg.cpp)\<close>

text \<open>
  The file wraps five FFmpeg resources (format context, packet, frame, codec context,
  filter graph) in owning handles. Its functions are sequences of FFmpeg calls with
  \<^verbatim>\<open>throw std::runtime_error(...)\<close> in between, so the embedding is a state-and-exception
  monad over a native world: a heap of native objects plus the log of the library calls made
  so far. FFmpeg itself is not part of the repository: what a library call decides (status
  codes, which options it consumes, whether memory is left) is a field of the record
  \<open>ffmpeg\<close>, a parameter of every definition; what a call does to the heap (allocate, free,
  replace the option dictionary) follows the FFmpeg documentation and is written out below.
\<close>

subsection \<open>Native objects and the world\<close>

type_synonym addr = nat

text \<open>An \<^verbatim>\<open>AVDictionary\<close> is its sequence of entries; a null pointer is \<open>None\<close>.\<close>

type_synonym AVDictionary = "(string \<times> string) list"

datatype AVMediaType =
    AVMEDIA_TYPE_UNKNOWN | AVMEDIA_TYPE_VIDEO | AVMEDIA_TYPE_AUDIO
  | AVMEDIA_TYPE_DATA | AVMEDIA_TYPE_SUBTITLE | AVMEDIA_TYPE_ATTACHMENT

text \<open>The fields of \<^verbatim>\<open>AVCodecParameters\<close> the file reads or writes.\<close>

record AVCodecParameters =
  codec_type :: AVMediaType
  codec_id :: int
  channel_layout :: "64 word"

text \<open>
  What the model keeps of an \<^verbatim>\<open>AVCodecContext\<close>: the decoder it was allocated for, the
  parameters copied into it (if any), whether \<^verbatim>\<open>avcodec_open2\<close> has succeeded on it, and
  its \<^verbatim>\<open>channels\<close> field.
\<close>

record AVCodecContext =
  codec :: nat
  par :: "AVCodecParameters option"
  is_open :: bool
  channels :: int

datatype native =
    FormatContext string bool
  | Packet "nat list"
  | Frame
  | CodecContext AVCodecContext
  | FilterGraph "string list"
  | Dictionary AVDictionary

text \<open>
  \<open>FormatContext url probed\<close>: an opened input and whether its stream information has been
  found. \<open>Packet bufs\<close>: a packet and the buffers it references. \<open>FilterGraph fs\<close>: a graph
  and its filters.
\<close>

record world =
  heap :: "(addr \<times> native) list"
  calls :: "(string \<times> addr option) list"

text \<open>
  Exceptions are values. Every \<^verbatim>\<open>throw\<close> of the file is a \<^verbatim>\<open>std::runtime_error\<close>;
  \<open>runtime_error m\<close> is such an exception whose \<^verbatim>\<open>what()\<close> is the message \<open>m\<close>.
  \<open>segfault\<close> is what dereferencing a pointer that holds no object of the expected kind
  does (the process dies, no destructor runs).
\<close>

datatype error = runtime_error string | segfault

type_synonym 'a M = "world \<Rightarrow> (error + 'a) \<times> world"

definition ok :: "'a \<Rightarrow> 'a M" where
  "ok x w = (Inr x, w)"

definition throw :: "error \<Rightarrow> 'a M" where
  "throw e w = (Inl e, w)"

definition bind :: "'a M \<Rightarrow> ('a \<Rightarrow> 'b M) \<Rightarrow> 'b M" where
  "bind m f w = (case m w of (Inl e, w') \<Rightarrow> (Inl e, w') | (Inr x, w') \<Rightarrow> f x w')"

text \<open>
  Stack unwinding: when \<open>m\<close> throws a C++ exception, the destructor \<open>d\<close> of the already
  constructed (sub)object runs before the exception leaves.
\<close>

definition unwinding :: "(world \<Rightarrow> world) \<Rightarrow> 'a M \<Rightarrow> 'a M" where
  "unwinding d m w =
     (case m w of
        (Inl (runtime_error s), w') \<Rightarrow> (Inl (runtime_error s), d w')
      | r \<Rightarrow> r)"

definition fresh :: "(addr \<times> native) list \<Rightarrow> addr" where
  "fresh h = Suc (fold max (map fst h) 0)"

definition load :: "world \<Rightarrow> addr \<Rightarrow> native option" where
  "load w a = map_of (heap w) a"

definition alloc :: "native \<Rightarrow> world \<Rightarrow> addr \<times> world" where
  "alloc v w = (let a = fresh (heap w) in (a, w\<lparr>heap := (a, v) # heap w\<rparr>))"

definition store :: "addr \<Rightarrow> native \<Rightarrow> world \<Rightarrow> world" where
  "store a v w = w\<lparr>heap := AList.update a v (heap w)\<rparr>"

definition release :: "addr option \<Rightarrow> world \<Rightarrow> world" where
  "release p w = (case p of None \<Rightarrow> w | Some a \<Rightarrow> w\<lparr>heap := AList.delete a (heap w)\<rparr>)"

definition log :: "string \<Rightarrow> addr option \<Rightarrow> world \<Rightarrow> world" where
  "log f p w = w\<lparr>calls := calls w @ [(f, p)]\<rparr>"

text \<open>The addresses that hold a live native object.\<close>

definition live :: "world \<Rightarrow> addr set" where
  "live w = fst ` set (heap w)"

subsection \<open>The library: what FFmpeg and the environment decide\<close>

text \<open>
  Lookups without effect on the world are fields under their FFmpeg names. A call with an
  effect has a field for its outcome and a definition below for the call itself.
  \<^verbatim>\<open>av_err2string\<close> is the helper of the repository's header around FFmpeg's error
  text; the header is not among the sources, so it is a field as well.
\<close>

record ffmpeg =
  av_find_input_format :: "string \<Rightarrow> nat option"
  open_input :: "string \<Rightarrow> nat option \<Rightarrow> AVDictionary \<Rightarrow> int \<times> AVDictionary"
  av_err2string :: "int \<Rightarrow> string"
  find_stream_info :: "string \<Rightarrow> int"
  no_memory :: "world \<Rightarrow> bool"
  dict_set :: "AVDictionary \<Rightarrow> string \<Rightarrow> string \<Rightarrow> AVDictionary"
  avcodec_find_decoder :: "int \<Rightarrow> nat option"
  avcodec_find_decoder_by_name :: "string \<Rightarrow> nat option"
  avcodec_get_name :: "int \<Rightarrow> string"
  parameters_to_context :: "AVCodecContext \<Rightarrow> AVCodecParameters \<Rightarrow> int"
  open2 :: "AVCodecContext \<Rightarrow> nat option \<Rightarrow> AVDictionary \<Rightarrow> int \<times> AVDictionary \<times> int"
  av_get_default_channel_layout :: "int \<Rightarrow> 64 word"

subsection \<open>Strings\<close>

text \<open>\<^verbatim>\<open>std::string::c_str\<close> read as a C string: the bytes before the first NUL.\<close>

definition c_str :: "string \<Rightarrow> string" where
  "c_str s = takeWhile (\<lambda>c. c \<noteq> CHR 0x00) s"

text \<open>
  \<^verbatim>\<open>std::runtime_error(what_arg)\<close> built from a \<^verbatim>\<open>std::string\<close>: the exception hands
  out its message through \<^verbatim>\<open>what()\<close>, a C string, and the standard fixes it by
  \<^verbatim>\<open>strcmp(what(), what_arg.c_str()) == 0\<close>. So the message is \<open>what_arg\<close> up to its first
  NUL. A message put together from literals, decimal digits and strings that the library
  hands out as C strings holds no NUL and is delivered whole; the throws of such messages are
  written with \<open>runtime_error\<close>. The throws whose message contains a \<^verbatim>\<open>std::string\<close> of
  the caller (the source path, the decoder name) are written with \<open>std_runtime_error\<close>.
\<close>

definition std_runtime_error :: "string \<Rightarrow> error" where
  "std_runtime_error what_arg = runtime_error (c_str what_arg)"

definition dquote :: string where
  "dquote = [CHR 0x22]"

text \<open>\<^verbatim>\<open>operator<<\<close> on an integer: decimal digits, a minus sign when negative.\<close>

fun show_nat :: "nat \<Rightarrow> string" where
  "show_nat n =
     (if n < 10 then [''0123456789'' ! n]
      else show_nat (n div 10) @ [''0123456789'' ! (n mod 10)])"

definition show_int :: "int \<Rightarrow> string" where
  "show_int i = (if i < 0 then ''-'' @ show_nat (nat (- i)) else show_nat (nat i))"

text \<open>The loop of \<^verbatim>\<open>join\<close>, index \<open>i\<close> and stream \<open>ks\<close>.\<close>

function join_loop :: "string list \<Rightarrow> nat \<Rightarrow> string \<Rightarrow> string" where
  "join_loop vars i ks =
     (if i < length vars then
        join_loop vars (Suc i)
          (if i = 0 then ks @ dquote @ vars ! i @ dquote
           else ks @ '', '' @ dquote @ vars ! i @ dquote)
      else ks)"
  by pat_completeness auto
termination
  by (relation "measure (\<lambda>(vars, i, ks). length vars - i)") auto

definition join :: "string list \<Rightarrow> string" where
  "join vars = join_loop vars 0 []"

subsection \<open>FFmpeg calls\<close>

text \<open>Reading through a pointer: the object must be there and of the expected kind.\<close>

definition entries :: "addr option \<Rightarrow> AVDictionary M" where
  "entries p w =
     (case p of
        None \<Rightarrow> (Inr [], w)
      | Some a \<Rightarrow>
          (case load w a of Some (Dictionary m) \<Rightarrow> (Inr m, w) | _ \<Rightarrow> (Inl segfault, w)))"

definition format_context :: "addr option \<Rightarrow> (addr \<times> string \<times> bool) M" where
  "format_context p w =
     (case p of
        None \<Rightarrow> (Inl segfault, w)
      | Some a \<Rightarrow>
          (case load w a of
             Some (FormatContext url probed) \<Rightarrow> (Inr (a, url, probed), w)
           | _ \<Rightarrow> (Inl segfault, w)))"

definition codec_context :: "addr option \<Rightarrow> (addr \<times> AVCodecContext) M" where
  "codec_context p w =
     (case p of
        None \<Rightarrow> (Inl segfault, w)
      | Some a \<Rightarrow>
          (case load w a of Some (CodecContext c) \<Rightarrow> (Inr (a, c), w) | _ \<Rightarrow> (Inl segfault, w)))"

definition packet :: "addr option \<Rightarrow> (addr \<times> nat list) M" where
  "packet p w =
     (case p of
        None \<Rightarrow> (Inl segfault, w)
      | Some a \<Rightarrow>
          (case load w a of Some (Packet bufs) \<Rightarrow> (Inr (a, bufs), w) | _ \<Rightarrow> (Inl segfault, w)))"

text \<open>
  An allocator returns null when no memory is left, and a pointer to a new object
  otherwise. A free function takes a possibly null pointer and releases what it points to.
\<close>

definition native_alloc :: "ffmpeg \<Rightarrow> string \<Rightarrow> native \<Rightarrow> addr option M" where
  "native_alloc L f v w =
     (if no_memory L w then (Inr None, log f None w)
      else (let (a, w') = alloc v w in (Inr (Some a), log f (Some a) w')))"

definition native_free :: "string \<Rightarrow> addr option \<Rightarrow> world \<Rightarrow> world" where
  "native_free f p w = log f p (release p w)"

definition av_packet_alloc :: "ffmpeg \<Rightarrow> addr option M" where
  "av_packet_alloc L = native_alloc L ''av_packet_alloc'' (Packet [])"

definition av_frame_alloc :: "ffmpeg \<Rightarrow> addr option M" where
  "av_frame_alloc L = native_alloc L ''av_frame_alloc'' Frame"

definition avfilter_graph_alloc :: "ffmpeg \<Rightarrow> addr option M" where
  "avfilter_graph_alloc L = native_alloc L ''avfilter_graph_alloc'' (FilterGraph [])"

definition avcodec_alloc_context3 :: "ffmpeg \<Rightarrow> nat \<Rightarrow> addr option M" where
  "avcodec_alloc_context3 L pCodec =
     native_alloc L ''avcodec_alloc_context3''
       (CodecContext \<lparr>codec = pCodec, par = None, is_open = False, channels = 0\<rparr>)"

definition avformat_close_input :: "addr option \<Rightarrow> world \<Rightarrow> world" where
  "avformat_close_input = native_free ''avformat_close_input''"

definition av_packet_free :: "addr option \<Rightarrow> world \<Rightarrow> world" where
  "av_packet_free = native_free ''av_packet_free''"

definition av_frame_free :: "addr option \<Rightarrow> world \<Rightarrow> world" where
  "av_frame_free = native_free ''av_frame_free''"

definition avcodec_free_context :: "addr option \<Rightarrow> world \<Rightarrow> world" where
  "avcodec_free_context = native_free ''avcodec_free_context''"

definition avfilter_graph_free :: "addr option \<Rightarrow> world \<Rightarrow> world" where
  "avfilter_graph_free = native_free ''avfilter_graph_free''"

definition av_dict_free :: "addr option \<Rightarrow> world \<Rightarrow> world" where
  "av_dict_free = native_free ''av_dict_free''"

text \<open>
  \<^verbatim>\<open>av_dict_set(&pm, key, value, 0)\<close>: creates the dictionary when \<open>pm\<close> is null; which
  entries the dictionary then holds is the library's \<open>dict_set\<close>.
\<close>

definition av_dict_set :: "ffmpeg \<Rightarrow> addr option \<Rightarrow> string \<Rightarrow> string \<Rightarrow> addr option M" where
  "av_dict_set L pm key val =
     bind (entries pm) (\<lambda>m w.
       (case pm of
          None \<Rightarrow>
            (let (a, w') = alloc (Dictionary (dict_set L m key val)) w
             in (Inr (Some a), log ''av_dict_set'' (Some a) w'))
        | Some a \<Rightarrow>
            (Inr (Some a), log ''av_dict_set'' (Some a) (store a (Dictionary (dict_set L m key val)) w))))"

text \<open>
  \<^verbatim>\<open>av_dict_get(m, "", prev, AV_DICT_IGNORE_SUFFIX)\<close>: the empty key is a prefix of every
  key, so the call returns the entry after \<open>prev\<close> (the first one when \<open>prev\<close> is null), and
  null after the last. An entry pointer is the entry's index.
\<close>

definition av_dict_get :: "AVDictionary \<Rightarrow> nat option \<Rightarrow> nat option" where
  "av_dict_get m prev =
     (let i = (case prev of None \<Rightarrow> 0 | Some j \<Rightarrow> Suc j)
      in if i < length m then Some i else None)"

text \<open>
  The open calls destroy the dictionary they are given and put in its place one that holds
  the options they did not consume (null when there is none).
\<close>

definition replace_dict :: "addr option \<Rightarrow> AVDictionary \<Rightarrow> world \<Rightarrow> addr option \<times> world" where
  "replace_dict p rest w =
     (let w1 = release p w
      in if rest = [] then (None, w1)
         else (let (a, w2) = alloc (Dictionary rest) w1 in (Some a, w2)))"

text \<open>
  \<^verbatim>\<open>avformat_open_input(&pFormat, url, fmt, &options)\<close> with \<open>pFormat\<close> null on entry, as
  the file calls it: on success \<open>pFormat\<close> is a newly allocated, opened context; on failure
  (negative status) it stays null. The result is (status, \<open>pFormat\<close>, \<open>options\<close>).
\<close>

definition avformat_open_input ::
  "ffmpeg \<Rightarrow> string \<Rightarrow> nat option \<Rightarrow> addr option \<Rightarrow> (int \<times> addr option \<times> addr option) M" where
  "avformat_open_input L url fmt options =
     bind (entries options) (\<lambda>m w.
       (let (r, rest) = open_input L url fmt m;
            (options', w1) = replace_dict options rest w
        in if r < 0 then (Inr (r, None, options'), log ''avformat_open_input'' None w1)
           else (let (a, w2) = alloc (FormatContext url False) w1
                 in (Inr (r, Some a, options'), log ''avformat_open_input'' (Some a) w2))))"

definition avformat_find_stream_info :: "ffmpeg \<Rightarrow> addr option \<Rightarrow> int M" where
  "avformat_find_stream_info L p =
     bind (format_context p) (\<lambda>(a, url, probed) w.
       (let r = find_stream_info L url;
            w1 = (if r < 0 then w else store a (FormatContext url True) w)
        in (Inr r, log ''avformat_find_stream_info'' p w1)))"

text \<open>\<^verbatim>\<open>av_packet_unref\<close>: drops the buffers the packet references; the packet stays.\<close>

definition av_packet_unref :: "addr option \<Rightarrow> unit M" where
  "av_packet_unref p =
     bind (packet p) (\<lambda>(a, bufs) w. (Inr (), log ''av_packet_unref'' p (store a (Packet []) w)))"

definition avcodec_parameters_to_context ::
  "ffmpeg \<Rightarrow> addr option \<Rightarrow> AVCodecParameters \<Rightarrow> int M" where
  "avcodec_parameters_to_context L p params =
     bind (codec_context p) (\<lambda>(a, c) w.
       (let r = parameters_to_context L c params;
            w1 = (if r < 0 then w else store a (CodecContext (c\<lparr>par := Some params\<rparr>)) w)
        in (Inr r, log ''avcodec_parameters_to_context'' p w1)))"

text \<open>
  \<^verbatim>\<open>avcodec_open2(ctx, codec, &options)\<close>: the library decides the status, the options
  left over and the channel count the opened context reports. The result is
  (status, \<open>options\<close>).
\<close>

definition avcodec_open2 ::
  "ffmpeg \<Rightarrow> addr option \<Rightarrow> nat option \<Rightarrow> addr option \<Rightarrow> (int \<times> addr option) M" where
  "avcodec_open2 L p pCodec options =
     bind (codec_context p) (\<lambda>(a, c).
     bind (entries options) (\<lambda>m w.
       (let (r, rest, ch) = open2 L c pCodec m;
            (options', w1) = replace_dict options rest w;
            w2 = (if r < 0 then w1
                  else store a (CodecContext (c\<lparr>is_open := True, channels := ch\<rparr>)) w1)
        in (Inr (r, options'), log ''avcodec_open2'' p w2))))"

subsection \<open>The owning handle\<close>

text \<open>
  Modelled from the spec: the class template \<^verbatim>\<open>Wrapper<T, Deleter>\<close> of the header, which
  is not among the sources. An owning handle wraps exactly one native resource pointer (the
  member \<^verbatim>\<open>ptr\<close>, a \<^verbatim>\<open>std::unique_ptr\<close>) and at the end of its lifetime hands it to its
  release capability; a \<^verbatim>\<open>unique_ptr\<close> does that only for a pointer that is not null.
  The handle converts implicitly to the raw pointer.
\<close>

record Wrapper =
  ptr :: "addr option"

definition Wrapper_dtor :: "(addr option \<Rightarrow> world \<Rightarrow> world) \<Rightarrow> Wrapper \<Rightarrow> world \<Rightarrow> world" where
  "Wrapper_dtor deleter this w = (case ptr this of None \<Rightarrow> w | Some a \<Rightarrow> deleter (Some a) w)"

text \<open>\<^verbatim>\<open>ptr.reset(p)\<close>: store the new pointer, then delete the old one when it is not null.\<close>

definition unique_ptr_reset ::
  "(addr option \<Rightarrow> world \<Rightarrow> world) \<Rightarrow> Wrapper \<Rightarrow> addr option \<Rightarrow> world \<Rightarrow> Wrapper \<times> world" where
  "unique_ptr_reset deleter this p w =
     (let old = ptr this; this' = this\<lparr>ptr := p\<rparr>
      in (this', (case old of None \<Rightarrow> w | Some a \<Rightarrow> deleter (Some a) w)))"

subsection \<open>Option dictionaries\<close>

text \<open>
  A \<^verbatim>\<open>std::map<std::string, std::string>\<close> is the sequence of its pairs in iteration
  order. \<^verbatim>\<open>get_option_dict\<close> starts from a null dictionary and sets every pair.
\<close>

fun get_option_dict_loop :: "ffmpeg \<Rightarrow> (string \<times> string) list \<Rightarrow> addr option \<Rightarrow> addr option M" where
  "get_option_dict_loop L [] opt = ok opt"
| "get_option_dict_loop L (it # rest) opt =
     bind (av_dict_set L opt (c_str (fst it)) (c_str (snd it)))
       (\<lambda>opt'. get_option_dict_loop L rest opt')"

definition get_option_dict :: "ffmpeg \<Rightarrow> (string \<times> string) list \<Rightarrow> addr option M" where
  "get_option_dict L option = get_option_dict_loop L option None"

text \<open>The do-while loop of \<^verbatim>\<open>clean_up_dict\<close>: \<open>t\<close> is the entry reached, \<open>ret\<close> the keys so far.\<close>

function clean_up_dict_loop :: "AVDictionary \<Rightarrow> nat option \<Rightarrow> string list \<Rightarrow> string list" where
  "clean_up_dict_loop m t ret =
     (case av_dict_get m t of
        Some i \<Rightarrow> clean_up_dict_loop m (Some i) (ret @ [fst (m ! i)])
      | None \<Rightarrow> ret)"
  by pat_completeness auto
termination
  by (relation "measure (\<lambda>(m, t, ret). length m - (case t of None \<Rightarrow> 0 | Some j \<Rightarrow> Suc j))")
     (auto simp: av_dict_get_def Let_def split: option.splits if_splits)

definition clean_up_dict :: "addr option \<Rightarrow> string list M" where
  "clean_up_dict p =
     bind (entries p) (\<lambda>m w. (Inr (clean_up_dict_loop m None []), av_dict_free p w))"

subsection \<open>AVFormatContext\<close>

definition AVFormatContextDeleter :: "addr option \<Rightarrow> world \<Rightarrow> world" where
  "AVFormatContextDeleter p = avformat_close_input p"

definition get_format_context ::
  "ffmpeg \<Rightarrow> string \<Rightarrow> string \<Rightarrow> (string \<times> string) list \<Rightarrow> addr option M" where
  "get_format_context L src device option =
     (let pInput = (if device = [] then None else av_find_input_format L (c_str device))
      in bind (get_option_dict L option) (\<lambda>opt.
         bind (avformat_open_input L (c_str src) pInput opt) (\<lambda>(ret, pFormat, opt').
         bind (clean_up_dict opt') (\<lambda>unused_keys.
           if unused_keys \<noteq> [] then
             throw (runtime_error (''Unexpected options: '' @ join unused_keys))
           else if ret < 0 then
             throw (std_runtime_error
               (''Failed to open the input '' @ dquote @ src @ dquote @ '' ('' @
                av_err2string L ret @ '').''))
           else ok pFormat))))"

text \<open>
  The constructor: the base-class handle is built from what \<^verbatim>\<open>get_format_context\<close>
  returns; the body then probes the streams, and a throw in the body destroys the handle
  that is already built.
\<close>

definition AVFormatContextPtr ::
  "ffmpeg \<Rightarrow> string \<Rightarrow> string \<Rightarrow> (string \<times> string) list \<Rightarrow> Wrapper M" where
  "AVFormatContextPtr L src device option =
     bind (get_format_context L src device option) (\<lambda>p.
       (let this = \<lparr>ptr = p\<rparr>
        in unwinding (Wrapper_dtor AVFormatContextDeleter this)
             (bind (avformat_find_stream_info L (ptr this)) (\<lambda>r.
                if r < 0 then throw (runtime_error ''Failed to find stream information.'')
                else ok this))))"

subsection \<open>AVPacket\<close>

definition AVPacketDeleter :: "addr option \<Rightarrow> world \<Rightarrow> world" where
  "AVPacketDeleter p = av_packet_free p"

definition get_av_packet :: "ffmpeg \<Rightarrow> addr option M" where
  "get_av_packet L =
     bind (av_packet_alloc L) (\<lambda>pPacket.
       if pPacket = None then throw (runtime_error ''Failed to allocate AVPacket object.'')
       else ok pPacket)"

definition AVPacketPtr :: "ffmpeg \<Rightarrow> Wrapper M" where
  "AVPacketPtr L = bind (get_av_packet L) (\<lambda>p. ok \<lparr>ptr = p\<rparr>)"

text \<open>
  \<^verbatim>\<open>AutoPacketUnref\<close> keeps a reference to the packet handle (its member \<^verbatim>\<open>p_\<close>, here
  \<open>packet_ref\<close>); the constructor calls nothing, the destructor unreferences the packet the
  handle converts to.
\<close>

record AutoPacketUnref =
  packet_ref :: Wrapper

definition AutoPacketUnref :: "Wrapper \<Rightarrow> AutoPacketUnref M" where
  "AutoPacketUnref p = ok \<lparr>packet_ref = p\<rparr>"

definition AutoPacketUnref_dtor :: "AutoPacketUnref \<Rightarrow> unit M" where
  "AutoPacketUnref_dtor this = av_packet_unref (ptr (packet_ref this))"

definition AutoPacketUnref_operator_AVPacket :: "AutoPacketUnref \<Rightarrow> addr option" where
  "AutoPacketUnref_operator_AVPacket this = ptr (packet_ref this)"

subsection \<open>AVFrame\<close>

definition AVFrameDeleter :: "addr option \<Rightarrow> world \<Rightarrow> world" where
  "AVFrameDeleter p = av_frame_free p"

definition get_av_frame :: "ffmpeg \<Rightarrow> addr option M" where
  "get_av_frame L =
     bind (av_frame_alloc L) (\<lambda>pFrame.
       if pFrame = None then throw (runtime_error ''Failed to allocate AVFrame object.'')
       else ok pFrame)"

definition AVFramePtr :: "ffmpeg \<Rightarrow> Wrapper M" where
  "AVFramePtr L = bind (get_av_frame L) (\<lambda>p. ok \<lparr>ptr = p\<rparr>)"

subsection \<open>AVCodecContext\<close>

definition AVCodecContextDeleter :: "addr option \<Rightarrow> world \<Rightarrow> world" where
  "AVCodecContextDeleter p = avcodec_free_context p"

text \<open>
  The message is put together in a \<^verbatim>\<open>std::stringstream\<close>: \<^verbatim>\<open>operator<<\<close> writes the
  \<^verbatim>\<open>const char*\<close> that \<^verbatim>\<open>avcodec_get_name\<close> returns up to its NUL, the codec id in
  decimal, and the \<^verbatim>\<open>std::string\<close> \<open>decoder_name\<close> with all its bytes. One throw hands
  the stream's string to the exception.
\<close>

definition get_codec_context :: "ffmpeg \<Rightarrow> int \<Rightarrow> string \<Rightarrow> addr option M" where
  "get_codec_context L codec_id' decoder_name =
     (let pCodec = (if decoder_name = [] then avcodec_find_decoder L codec_id'
                    else avcodec_find_decoder_by_name L (c_str decoder_name))
      in case pCodec of
           None \<Rightarrow>
             throw (std_runtime_error
               (if decoder_name = [] then
                  ''Unsupported codec: '' @ dquote @ c_str (avcodec_get_name L codec_id') @ dquote @
                  '', ('' @ show_int codec_id' @ '').''
                else ''Unsupported codec: '' @ dquote @ decoder_name @ dquote @ ''.''))
         | Some c \<Rightarrow>
             bind (avcodec_alloc_context3 L c) (\<lambda>pCodecContext.
               if pCodecContext = None then
                 throw (runtime_error ''Failed to allocate CodecContext.'')
               else ok pCodecContext))"

text \<open>
  \<^verbatim>\<open>init_codec_context\<close> writes through \<open>pParams\<close>, the caller's object: the result is
  that object as the function leaves it.
\<close>

definition init_codec_context ::
  "ffmpeg \<Rightarrow> addr option \<Rightarrow> AVCodecParameters \<Rightarrow> string \<Rightarrow> (string \<times> string) list \<Rightarrow>
   AVCodecParameters M" where
  "init_codec_context L pCodecContext pParams decoder_name decoder_option =
     (let pCodec = (if decoder_name = [] then avcodec_find_decoder L (codec_id pParams)
                    else avcodec_find_decoder_by_name L (c_str decoder_name))
      in bind (avcodec_parameters_to_context L pCodecContext pParams) (\<lambda>r.
           if r < 0 then throw (runtime_error ''Failed to set CodecContext parameter.'')
           else
             bind (get_option_dict L decoder_option) (\<lambda>opts.
             bind (avcodec_open2 L pCodecContext pCodec opts) (\<lambda>(r2, opts').
               if r2 < 0 then throw (runtime_error ''Failed to initialize CodecContext.'')
               else
                 bind (clean_up_dict opts') (\<lambda>unused_keys.
                   if unused_keys \<noteq> [] then
                     throw (runtime_error
                       (''Unexpected decoder options: '' @ join unused_keys))
                   else if codec_type pParams = AVMEDIA_TYPE_AUDIO \<and> channel_layout pParams = 0
                   then
                     bind (codec_context pCodecContext) (\<lambda>(a, c).
                       ok (pParams\<lparr>channel_layout :=
                             av_get_default_channel_layout L (channels c)\<rparr>))
                   else ok pParams)))))"

text \<open>The constructor returns the handle and the caller's parameters object.\<close>

definition AVCodecContextPtr ::
  "ffmpeg \<Rightarrow> AVCodecParameters \<Rightarrow> string \<Rightarrow> (string \<times> string) list \<Rightarrow>
   (Wrapper \<times> AVCodecParameters) M" where
  "AVCodecContextPtr L pParam decoder_name decoder_option =
     bind (get_codec_context L (codec_id pParam) decoder_name) (\<lambda>p.
       (let this = \<lparr>ptr = p\<rparr>
        in unwinding (Wrapper_dtor AVCodecContextDeleter this)
             (bind (init_codec_context L (ptr this) pParam decoder_name decoder_option)
                (\<lambda>pParam'. ok (this, pParam')))))"

subsection \<open>AVFilterGraph\<close>

definition AVFilterGraphDeleter :: "addr option \<Rightarrow> world \<Rightarrow> world" where
  "AVFilterGraphDeleter p = avfilter_graph_free p"

definition get_filter_graph :: "ffmpeg \<Rightarrow> addr option M" where
  "get_filter_graph L =
     bind (avfilter_graph_alloc L) (\<lambda>ptr.
       if ptr = None then throw (runtime_error ''Failed to allocate resouce.'')
       else ok ptr)"

definition AVFilterGraphPtr :: "ffmpeg \<Rightarrow> Wrapper M" where
  "AVFilterGraphPtr L = bind (get_filter_graph L) (\<lambda>p. ok \<lparr>ptr = p\<rparr>)"

text \<open>\<^verbatim>\<open>AVFilterGraphPtr::reset\<close>; the result is the handle as the call leaves it.\<close>

definition reset :: "ffmpeg \<Rightarrow> Wrapper \<Rightarrow> Wrapper M" where
  "reset L this =
     bind (get_filter_graph L) (\<lambda>p w.
       (let (this', w') = unique_ptr_reset AVFilterGraphDeleter this p w in (Inr this', w')))"

subsection \<open>Notions used to state the properties\<close>

text \<open>
  The entries of the dictionary \<^verbatim>\<open>get_option_dict\<close> builds from an option set, the
  format descriptor \<^verbatim>\<open>get_format_context\<close> passes to the open call, the decoder both
  \<^verbatim>\<open>get_codec_context\<close> and \<^verbatim>\<open>init_codec_context\<close> look up, and the codec context
  as \<^verbatim>\<open>avcodec_alloc_context3\<close> leaves it.
\<close>

definition option_entries :: "ffmpeg \<Rightarrow> (string \<times> string) list \<Rightarrow> AVDictionary" where
  "option_entries L option =
     fold (\<lambda>it m. dict_set L m (c_str (fst it)) (c_str (snd it))) option []"

definition input_format :: "ffmpeg \<Rightarrow> string \<Rightarrow> nat option" where
  "input_format L device = (if device = [] then None else av_find_input_format L (c_str device))"

definition find_decoder :: "ffmpeg \<Rightarrow> int \<Rightarrow> string \<Rightarrow> nat option" where
  "find_decoder L cid decoder_name =
     (if decoder_name = [] then avcodec_find_decoder L cid
      else avcodec_find_decoder_by_name L (c_str decoder_name))"

definition new_context :: "nat \<Rightarrow> AVCodecContext" where
  "new_context cd = \<lparr>codec = cd, par = None, is_open = False, channels = 0\<rparr>"

text \<open>
  The list of keys as the specification words it: each key between double quotes, the keys
  separated by a comma and a space.
\<close>

fun quoted_csv :: "string list \<Rightarrow> string" where
  "quoted_csv [] = []"
| "quoted_csv [k] = dquote @ k @ dquote"
| "quoted_csv (k # ks) = dquote @ k @ dquote @ '', '' @ quoted_csv ks"

text \<open>
  The strings from which the open error and the two unknown-codec errors are built (the
  argument of \<open>std_runtime_error\<close>).
\<close>

definition open_error :: "ffmpeg \<Rightarrow> string \<Rightarrow> int \<Rightarrow> string" where
  "open_error L src ret =
     ''Failed to open the input '' @ dquote @ src @ dquote @ '' ('' @ av_err2string L ret @ '').''"

definition unsupported_name :: "string \<Rightarrow> string" where
  "unsupported_name decoder_name = ''Unsupported codec: '' @ dquote @ decoder_name @ dquote @ ''.''"

definition unsupported_id :: "ffmpeg \<Rightarrow> int \<Rightarrow> string" where
  "unsupported_id L cid =
     ''Unsupported codec: '' @ dquote @ c_str (avcodec_get_name L cid) @ dquote @ '', ('' @
     show_int cid @ '').''"

text \<open>An outcome is an option error when its message starts as the two option checks do.\<close>

definition option_error :: "error + 'a \<Rightarrow> bool" where
  "option_error r =
     (case r of
        Inl (runtime_error m) \<Rightarrow>
          prefix ''Unexpected options: '' m \<or> prefix ''Unexpected decoder options: '' m
      | _ \<Rightarrow> False)"

text \<open>A handle wraps the object \<open>v\<close> when its pointer is not null and \<open>v\<close> is what it points to.\<close>

definition wraps :: "world \<Rightarrow> Wrapper \<Rightarrow> native \<Rightarrow> bool" where
  "wraps w this v = (case ptr this of None \<Rightarrow> False | Some a \<Rightarrow> load w a = Some v)"

text \<open>A filter-graph handle is null (moved from) or points to a live filter graph.\<close>

definition graph_handle :: "world \<Rightarrow> Wrapper \<Rightarrow> bool" where
  "graph_handle w this =
     (case ptr this of
        None \<Rightarrow> True
      | Some a \<Rightarrow> (case load w a of Some (FilterGraph fs) \<Rightarrow> True | _ \<Rightarrow> False))"

text \<open>Reading a decimal numeral back.\<close>

definition read_nat :: "string \<Rightarrow> nat" where
  "read_nat s = fold (\<lambda>c n. 10 * n + (of_char c - 48)) s 0"

subsection \<open>A sample library and sample inputs\<close>

text \<open>
  A small library instance to run the definitions on: one input format (\<open>wav\<close>), one
  readable file (\<open>a.wav\<close>, any other path is \<^verbatim>\<open>ENOENT\<close>, status -2, and then no option is
  consumed), one demuxer option (\<open>probesize\<close>), one decoder (\<open>pcm_s16le\<close>, codec id 65536,
  with the option \<open>threads\<close>), memory always available, and default layouts for one and
  two channels (mono 0x4, stereo 0x3) only. The decoder reports two channels.
\<close>

definition sample_ffmpeg :: ffmpeg where
  "sample_ffmpeg =
     \<lparr>av_find_input_format = (\<lambda>n. if n = ''wav'' then Some 0 else None),
      open_input = (\<lambda>url fmt m.
         if url = ''a.wav'' then (0, filter (\<lambda>e. fst e \<noteq> ''probesize'') m) else (- 2, m)),
      av_err2string = (\<lambda>e. if e = - 2 then ''No such file or directory'' else ''Unknown error''),
      find_stream_info = (\<lambda>url. 0),
      no_memory = (\<lambda>w. False),
      dict_set = (\<lambda>m k v. filter (\<lambda>e. fst e \<noteq> k) m @ [(k, v)]),
      avcodec_find_decoder = (\<lambda>i. if i = 65536 then Some 0 else None),
      avcodec_find_decoder_by_name = (\<lambda>n. if n = ''pcm_s16le'' then Some 0 else None),
      avcodec_get_name = (\<lambda>i. if i = 65536 then ''pcm_s16le'' else ''unknown_codec''),
      parameters_to_context = (\<lambda>c p. 0),
      open2 = (\<lambda>c pCodec m. (0, filter (\<lambda>e. fst e \<noteq> ''threads'') m, 2)),
      av_get_default_channel_layout = (\<lambda>n. if n = 1 then 4 else if n = 2 then 3 else 0)\<rparr>"

definition empty_world :: world where
  "empty_world = \<lparr>heap = [], calls = []\<rparr>"

definition sample_params :: AVCodecParameters where
  "sample_params = \<lparr>codec_type = AVMEDIA_TYPE_AUDIO, codec_id = 65536, channel_layout = 0\<rparr>"

text \<open>
  Variants of the sample library: a decoder that fails to open (\<^verbatim>\<open>EINVAL\<close>, status -22)
  and consumes nothing, a decoder that reports nine channels, a memory that holds one native
  object, and no memory at all: every allocator returns null, and the open call, which
  allocates the format context itself, reports \<^verbatim>\<open>ENOMEM\<close> (status -12).
\<close>

definition failing_decoder :: ffmpeg where
  "failing_decoder = sample_ffmpeg\<lparr>open2 := (\<lambda>c pCodec m. (- 22, m, 0))\<rparr>"

definition nine_channel_decoder :: ffmpeg where
  "nine_channel_decoder =
     sample_ffmpeg\<lparr>open2 := (\<lambda>c pCodec m. (0, filter (\<lambda>e. fst e \<noteq> ''threads'') m, 9))\<rparr>"

definition one_object_memory :: ffmpeg where
  "one_object_memory = sample_ffmpeg\<lparr>no_memory := (\<lambda>w. heap w \<noteq> [])\<rparr>"

definition no_memory_ffmpeg :: ffmpeg where
  "no_memory_ffmpeg =
     sample_ffmpeg\<lparr>no_memory := (\<lambda>w. True),
       open_input := (\<lambda>url fmt m. (- 12, m)),
       av_err2string := (\<lambda>e. if e = - 12 then ''Cannot allocate memory'' else ''Unknown error'')\<rparr>"

text \<open>A world in which a filter graph with one filter lives at address 1.\<close>

definition used_graph_world :: world where
  "used_graph_world = \<lparr>heap = [(1, FilterGraph [''aresample''])], calls = []\<rparr>"

section \<open>Properties\<close>

declare clean_up_dict_loop.simps [simp del] join_loop.simps [simp del] show_nat.simps [simp del]

subsection \<open>Fresh addresses\<close>

lemma fold_max_nat: "fold max xs (n::nat) = max n (fold max xs 0)"
proof (induction xs arbitrary: n)
  case Nil
  show ?case by simp
next
  case (Cons x xs)
  have "fold max (x # xs) n = fold max xs (max x n)" by simp
  also have "\<dots> = max (max x n) (fold max xs 0)" by (rule Cons.IH)
  also have "\<dots> = max n (max x (fold max xs 0))" by (simp add: max.commute max.left_commute)
  also have "max x (fold max xs 0) = fold max xs (max x 0)" by (simp add: Cons.IH [of "x"])
  finally show ?case by simp
qed

lemma fresh_Cons: "fresh ((a, v) # h) = max (Suc a) (fresh h)"
  unfolding fresh_def by (simp add: fold_max_nat [of _ a])

lemma fresh_Nil: "fresh [] = 1"
  by (simp add: fresh_def)

lemma key_less_fresh: "(a, v) \<in> set h \<Longrightarrow> a < fresh h"
  by (induction h) (auto simp: fresh_Cons)

lemma map_of_above_fresh: "fresh h \<le> k \<Longrightarrow> map_of h k = None"
  using key_less_fresh [of k _ h] by (cases "map_of h k") (auto dest!: map_of_SomeD)

lemma delete_above_fresh: "fresh h \<le> k \<Longrightarrow> AList.delete k h = h"
proof (induction h)
  case Nil
  show ?case by simp
next
  case (Cons e h)
  obtain a v where e: "e = (a, v)" by (cases e)
  from Cons.prems have "Suc a \<le> k" "fresh h \<le> k" by (simp_all add: e fresh_Cons)
  with Cons.IH show ?case by (simp add: e)
qed

lemma not_live_fresh: "fresh (heap w) \<notin> live w"
  using key_less_fresh [of "fresh (heap w)" _ "heap w"] by (auto simp: live_def)

lemma get_option_dict_loop_Some:
  "heap w = (a, Dictionary m) # h \<Longrightarrow>
   get_option_dict_loop L xs (Some a) w =
     (Inr (Some a),
      w\<lparr>heap := (a, Dictionary (fold (\<lambda>it m. dict_set L m (c_str (fst it)) (c_str (snd it))) xs m)) # h,
        calls := calls w @ replicate (length xs) (''av_dict_set'', Some a)\<rparr>)"
proof (induction xs arbitrary: w m)
  case Nil
  then show ?case by (simp add: ok_def)
next
  case (Cons it xs)
  let ?m' = "dict_set L m (c_str (fst it)) (c_str (snd it))"
  let ?w' = "log ''av_dict_set'' (Some a) (store a (Dictionary ?m') w)"
  have step: "av_dict_set L (Some a) (c_str (fst it)) (c_str (snd it)) w = (Inr (Some a), ?w')"
    using Cons.prems by (simp add: av_dict_set_def bind_def entries_def load_def)
  have h': "heap ?w' = (a, Dictionary ?m') # h"
    using Cons.prems by (simp add: log_def store_def)
  show ?case
    using Cons.IH [OF h'] step
    by (simp add: bind_def log_def store_def replicate_append_same)
qed

lemma get_option_dict_run:
  "get_option_dict L option w =
     (if option = [] then (Inr None, w)
      else (Inr (Some (fresh (heap w))),
            w\<lparr>heap := (fresh (heap w), Dictionary (option_entries L option)) # heap w,
              calls := calls w @ replicate (length option) (''av_dict_set'', Some (fresh (heap w)))\<rparr>))"
proof (cases option)
  case Nil
  then show ?thesis by (simp add: get_option_dict_def ok_def)
next
  case (Cons it xs)
  let ?a = "fresh (heap w)"
  let ?m' = "dict_set L [] (c_str (fst it)) (c_str (snd it))"
  let ?w' = "log ''av_dict_set'' (Some ?a) (snd (alloc (Dictionary ?m') w))"
  have step: "av_dict_set L None (c_str (fst it)) (c_str (snd it)) w = (Inr (Some ?a), ?w')"
    by (simp add: av_dict_set_def bind_def entries_def alloc_def Let_def)
  have h': "heap ?w' = (?a, Dictionary ?m') # heap w"
    by (simp add: log_def alloc_def Let_def)
  show ?thesis
    using get_option_dict_loop_Some [OF h', of L xs] step
    by (simp add: Cons get_option_dict_def option_entries_def bind_def log_def alloc_def Let_def
        replicate_append_same)
qed


lemma clean_up_dict_loop_drop:
  "clean_up_dict_loop m t ret =
     ret @ map fst (drop (case t of None \<Rightarrow> 0 | Some j \<Rightarrow> Suc j) m)"
proof (induction m t ret rule: clean_up_dict_loop.induct)
  case (1 m t ret)
  let ?i = "case t of None \<Rightarrow> 0 | Some j \<Rightarrow> Suc j"
  show ?case
  proof (cases "?i < length m")
    case True
    then have get: "av_dict_get m t = Some ?i" by (simp add: av_dict_get_def)
    have "clean_up_dict_loop m t ret = clean_up_dict_loop m (Some ?i) (ret @ [fst (m ! ?i)])"
      by (subst clean_up_dict_loop.simps) (simp add: get)
    also have "\<dots> = (ret @ [fst (m ! ?i)]) @ map fst (drop (Suc ?i) m)"
      using "1.IH" [OF get] by simp
    also have "\<dots> = ret @ map fst (drop ?i m)"
      using True by (simp add: Cons_nth_drop_Suc [symmetric])
    finally show ?thesis .
  next
    case False
    then have get: "av_dict_get m t = None" by (simp add: av_dict_get_def)
    show ?thesis
      using False by (subst clean_up_dict_loop.simps) (simp add: get)
  qed
qed

lemma clean_up_dict_loop_keys: "clean_up_dict_loop m None [] = map fst m"
  by (simp add: clean_up_dict_loop_drop)

lemma join_loop_tail:
  "0 < i \<Longrightarrow>
   join_loop vars i ks = ks @ concat (map (\<lambda>v. '', '' @ dquote @ v @ dquote) (drop i vars))"
proof (induction vars i ks rule: join_loop.induct)
  case (1 vars i ks)
  show ?case
  proof (cases "i < length vars")
    case True
    have "join_loop vars i ks = join_loop vars (Suc i) (ks @ '', '' @ dquote @ vars ! i @ dquote)"
      using True "1.prems" by (subst join_loop.simps) simp
    also have "\<dots> = (ks @ '', '' @ dquote @ vars ! i @ dquote) @
        concat (map (\<lambda>v. '', '' @ dquote @ v @ dquote) (drop (Suc i) vars))"
      using "1.IH" [OF True] "1.prems" by simp
    also have "\<dots> = ks @ concat (map (\<lambda>v. '', '' @ dquote @ v @ dquote) (drop i vars))"
      using True by (simp add: Cons_nth_drop_Suc [symmetric])
    finally show ?thesis .
  next
    case False
    then show ?thesis by (subst join_loop.simps) simp
  qed
qed

lemma quoted_csv_Cons:
  "quoted_csv (k # ks) = dquote @ k @ dquote @ concat (map (\<lambda>v. '', '' @ dquote @ v @ dquote) ks)"
  by (induction ks arbitrary: k) simp_all

lemma join_quoted_csv: "join vars = quoted_csv vars"
proof (cases vars)
  case Nil
  then show ?thesis unfolding join_def by (subst join_loop.simps) simp
next
  case (Cons k ks)
  have "join vars = join_loop vars (Suc 0) (dquote @ k @ dquote)"
    unfolding join_def using Cons by (subst join_loop.simps) simp
  also have "\<dots> = (dquote @ k @ dquote) @ concat (map (\<lambda>v. '', '' @ dquote @ v @ dquote) ks)"
    using Cons by (simp add: join_loop_tail)
  finally show ?thesis by (simp add: Cons quoted_csv_Cons)
qed

lemma option_entries_Nil: "option_entries L [] = []"
  by (simp add: option_entries_def)

lemmas run_defs =
  bind_def ok_def throw_def unwinding_def entries_def load_def replace_dict_def release_def
  alloc_def store_def log_def native_free_def native_alloc_def Let_def

lemmas heap_simps =
  delete_above_fresh fresh_Cons map_of_above_fresh clean_up_dict_loop_keys join_quoted_csv
  option_entries_Nil

lemma get_format_context_run:
  assumes "open_input L (c_str src) (input_format L device) (option_entries L option) = (ret, rest)"
  shows "fst (get_format_context L src device option w) =
           (if rest \<noteq> [] then
              Inl (runtime_error (''Unexpected options: '' @ quoted_csv (map fst rest)))
            else if ret < 0 then
              Inl (std_runtime_error (open_error L src ret))
            else Inr (Some (fresh (heap w))))"
    and "heap (snd (get_format_context L src device option w)) =
           (if ret < 0 then heap w
            else (if rest = [] then fresh (heap w) else Suc (fresh (heap w)),
                  FormatContext (c_str src) False) # heap w)"
proof -
  have unfold: "get_format_context L src device option =
      bind (get_option_dict L option) (\<lambda>opt.
         bind (avformat_open_input L (c_str src) (input_format L device) opt) (\<lambda>(ret, pFormat, opt').
         bind (clean_up_dict opt') (\<lambda>unused_keys.
           if unused_keys \<noteq> [] then
             throw (runtime_error (''Unexpected options: '' @ join unused_keys))
           else if ret < 0 then
             throw (std_runtime_error (open_error L src ret))
           else ok pFormat)))"
    by (simp only: get_format_context_def input_format_def open_error_def Let_def)
  show "fst (get_format_context L src device option w) =
           (if rest \<noteq> [] then
              Inl (runtime_error (''Unexpected options: '' @ quoted_csv (map fst rest)))
            else if ret < 0 then
              Inl (std_runtime_error (open_error L src ret))
            else Inr (Some (fresh (heap w))))"
  proof (cases "option = []")
    case True
    with assms show ?thesis
      unfolding unfold
      by (simp add: get_option_dict_run avformat_open_input_def clean_up_dict_def av_dict_free_def
          run_defs heap_simps)
  next
    case False
    with assms show ?thesis
      unfolding unfold
      by (simp add: get_option_dict_run avformat_open_input_def clean_up_dict_def av_dict_free_def
          run_defs heap_simps)
  qed
  show "heap (snd (get_format_context L src device option w)) =
           (if ret < 0 then heap w
            else (if rest = [] then fresh (heap w) else Suc (fresh (heap w)),
                  FormatContext (c_str src) False) # heap w)"
  proof (cases "option = []")
    case True
    with assms show ?thesis
      unfolding unfold
      by (simp add: get_option_dict_run avformat_open_input_def clean_up_dict_def av_dict_free_def
          run_defs heap_simps)
  next
    case False
    with assms show ?thesis
      unfolding unfold
      by (simp add: get_option_dict_run avformat_open_input_def clean_up_dict_def av_dict_free_def
          run_defs heap_simps)
  qed
qed


lemma AVFormatContextPtr_run:
  assumes "open_input L (c_str src) (input_format L device) (option_entries L option) = (ret, rest)"
  shows "fst (AVFormatContextPtr L src device option w) =
           (if rest \<noteq> [] then
              Inl (runtime_error (''Unexpected options: '' @ quoted_csv (map fst rest)))
            else if ret < 0 then
              Inl (std_runtime_error (open_error L src ret))
            else if find_stream_info L (c_str src) < 0 then
              Inl (runtime_error ''Failed to find stream information.'')
            else Inr \<lparr>ptr = Some (fresh (heap w))\<rparr>)"
    and "heap (snd (AVFormatContextPtr L src device option w)) =
           (if ret < 0 then heap w
            else if rest \<noteq> [] then (Suc (fresh (heap w)), FormatContext (c_str src) False) # heap w
            else if find_stream_info L (c_str src) < 0 then heap w
            else (fresh (heap w), FormatContext (c_str src) True) # heap w)"
proof -
  define r where "r = get_format_context L src device option w"
  have r: "get_format_context L src device option w = (fst r, snd r)"
    by (simp add: r_def)
  note F = get_format_context_run [OF assms, of w, folded r_def]
  show "fst (AVFormatContextPtr L src device option w) =
           (if rest \<noteq> [] then
              Inl (runtime_error (''Unexpected options: '' @ quoted_csv (map fst rest)))
            else if ret < 0 then
              Inl (std_runtime_error (open_error L src ret))
            else if find_stream_info L (c_str src) < 0 then
              Inl (runtime_error ''Failed to find stream information.'')
            else Inr \<lparr>ptr = Some (fresh (heap w))\<rparr>)"
    unfolding AVFormatContextPtr_def bind_def [of "get_format_context L src device option"] r
    using F
    by (simp add: avformat_find_stream_info_def format_context_def Wrapper_dtor_def
        AVFormatContextDeleter_def avformat_close_input_def run_defs heap_simps)
  show "heap (snd (AVFormatContextPtr L src device option w)) =
           (if ret < 0 then heap w
            else if rest \<noteq> [] then (Suc (fresh (heap w)), FormatContext (c_str src) False) # heap w
            else if find_stream_info L (c_str src) < 0 then heap w
            else (fresh (heap w), FormatContext (c_str src) True) # heap w)"
    unfolding AVFormatContextPtr_def bind_def [of "get_format_context L src device option"] r
    using F
    by (simp add: avformat_find_stream_info_def format_context_def Wrapper_dtor_def
        AVFormatContextDeleter_def avformat_close_input_def run_defs heap_simps)
qed


lemma get_codec_context_run:
  "get_codec_context L cid decoder_name w =
     (case find_decoder L cid decoder_name of
        None \<Rightarrow>
          (Inl (std_runtime_error
             (if decoder_name = [] then unsupported_id L cid
              else unsupported_name decoder_name)), w)
      | Some cd \<Rightarrow>
          if no_memory L w then
            (Inl (runtime_error ''Failed to allocate CodecContext.''),
             log ''avcodec_alloc_context3'' None w)
          else
            (Inr (Some (fresh (heap w))),
             log ''avcodec_alloc_context3'' (Some (fresh (heap w)))
               (w\<lparr>heap := (fresh (heap w), CodecContext (new_context cd)) # heap w\<rparr>)))"
  by (simp add: get_codec_context_def find_decoder_def new_context_def avcodec_alloc_context3_def
      unsupported_id_def unsupported_name_def run_defs split: option.splits)

lemma init_codec_context_run:
  assumes h: "heap w = (a, CodecContext c) # h" and a: "a = fresh h"
    and P: "parameters_to_context L c pParams = r1"
    and O: "open2 L (c\<lparr>par := Some pParams\<rparr>) (find_decoder L (codec_id pParams) decoder_name)
              (option_entries L decoder_option) = (r2, rest, ch)"
  shows "fst (init_codec_context L (Some a) pParams decoder_name decoder_option w) =
           (if r1 < 0 then Inl (runtime_error ''Failed to set CodecContext parameter.'')
            else if r2 < 0 then Inl (runtime_error ''Failed to initialize CodecContext.'')
            else if rest \<noteq> [] then
              Inl (runtime_error (''Unexpected decoder options: '' @ quoted_csv (map fst rest)))
            else Inr (if codec_type pParams = AVMEDIA_TYPE_AUDIO \<and> channel_layout pParams = 0
                      then pParams\<lparr>channel_layout := av_get_default_channel_layout L ch\<rparr>
                      else pParams))"
    and "heap (snd (init_codec_context L (Some a) pParams decoder_name decoder_option w)) =
           (if r1 < 0 then (a, CodecContext c) # h
            else if r2 < 0 then
              (if rest = [] then [] else [(Suc a, Dictionary rest)]) @
              (a, CodecContext (c\<lparr>par := Some pParams\<rparr>)) # h
            else (a, CodecContext (c\<lparr>par := Some pParams, is_open := True, channels := ch\<rparr>)) # h)"
proof -
  have unfold: "init_codec_context L (Some a) pParams decoder_name decoder_option =
      bind (avcodec_parameters_to_context L (Some a) pParams) (\<lambda>r.
           if r < 0 then throw (runtime_error ''Failed to set CodecContext parameter.'')
           else
             bind (get_option_dict L decoder_option) (\<lambda>opts.
             bind (avcodec_open2 L (Some a) (find_decoder L (codec_id pParams) decoder_name) opts)
              (\<lambda>(r2, opts').
               if r2 < 0 then throw (runtime_error ''Failed to initialize CodecContext.'')
               else
                 bind (clean_up_dict opts') (\<lambda>unused_keys.
                   if unused_keys \<noteq> [] then
                     throw (runtime_error
                       (''Unexpected decoder options: '' @ join unused_keys))
                   else if codec_type pParams = AVMEDIA_TYPE_AUDIO \<and> channel_layout pParams = 0
                   then
                     bind (codec_context (Some a)) (\<lambda>(a, c).
                       ok (pParams\<lparr>channel_layout :=
                             av_get_default_channel_layout L (channels c)\<rparr>))
                   else ok pParams))))"
    by (simp only: init_codec_context_def find_decoder_def Let_def)
  show "fst (init_codec_context L (Some a) pParams decoder_name decoder_option w) =
           (if r1 < 0 then Inl (runtime_error ''Failed to set CodecContext parameter.'')
            else if r2 < 0 then Inl (runtime_error ''Failed to initialize CodecContext.'')
            else if rest \<noteq> [] then
              Inl (runtime_error (''Unexpected decoder options: '' @ quoted_csv (map fst rest)))
            else Inr (if codec_type pParams = AVMEDIA_TYPE_AUDIO \<and> channel_layout pParams = 0
                      then pParams\<lparr>channel_layout := av_get_default_channel_layout L ch\<rparr>
                      else pParams))"
  proof (cases "decoder_option = []")
    case True
    with h a P O show ?thesis
      unfolding unfold
      by (simp add: get_option_dict_run avcodec_parameters_to_context_def avcodec_open2_def
          codec_context_def clean_up_dict_def av_dict_free_def run_defs heap_simps)
  next
    case False
    with h a P O show ?thesis
      unfolding unfold
      by (simp add: get_option_dict_run avcodec_parameters_to_context_def avcodec_open2_def
          codec_context_def clean_up_dict_def av_dict_free_def run_defs heap_simps)
  qed
  show "heap (snd (init_codec_context L (Some a) pParams decoder_name decoder_option w)) =
           (if r1 < 0 then (a, CodecContext c) # h
            else if r2 < 0 then
              (if rest = [] then [] else [(Suc a, Dictionary rest)]) @
              (a, CodecContext (c\<lparr>par := Some pParams\<rparr>)) # h
            else (a, CodecContext (c\<lparr>par := Some pParams, is_open := True, channels := ch\<rparr>)) # h)"
  proof (cases "decoder_option = []")
    case True
    with h a P O show ?thesis
      unfolding unfold
      by (simp add: get_option_dict_run avcodec_parameters_to_context_def avcodec_open2_def
          codec_context_def clean_up_dict_def av_dict_free_def run_defs heap_simps)
  next
    case False
    with h a P O show ?thesis
      unfolding unfold
      by (simp add: get_option_dict_run avcodec_parameters_to_context_def avcodec_open2_def
          codec_context_def clean_up_dict_def av_dict_free_def run_defs heap_simps)
  qed
qed


lemma AVCodecContextPtr_run:
  assumes D: "find_decoder L (codec_id pParam) decoder_name = Some cd"
    and M: "\<not> no_memory L w"
    and P: "parameters_to_context L (new_context cd) pParam = r1"
    and O: "open2 L ((new_context cd)\<lparr>par := Some pParam\<rparr>) (Some cd)
              (option_entries L decoder_option) = (r2, rest, ch)"
  shows "fst (AVCodecContextPtr L pParam decoder_name decoder_option w) =
           (if r1 < 0 then Inl (runtime_error ''Failed to set CodecContext parameter.'')
            else if r2 < 0 then Inl (runtime_error ''Failed to initialize CodecContext.'')
            else if rest \<noteq> [] then
              Inl (runtime_error (''Unexpected decoder options: '' @ quoted_csv (map fst rest)))
            else Inr (\<lparr>ptr = Some (fresh (heap w))\<rparr>,
                      if codec_type pParam = AVMEDIA_TYPE_AUDIO \<and> channel_layout pParam = 0
                      then pParam\<lparr>channel_layout := av_get_default_channel_layout L ch\<rparr>
                      else pParam))"
    and "heap (snd (AVCodecContextPtr L pParam decoder_name decoder_option w)) =
           (if r1 < 0 then heap w
            else if r2 < 0 then
              (if rest = [] then [] else [(Suc (fresh (heap w)), Dictionary rest)]) @ heap w
            else if rest \<noteq> [] then heap w
            else (fresh (heap w),
                  CodecContext ((new_context cd)\<lparr>par := Some pParam, is_open := True,
                                                 channels := ch\<rparr>)) # heap w)"
proof -
  let ?a = "fresh (heap w)"
  define w1 where "w1 = log ''avcodec_alloc_context3'' (Some ?a)
      (w\<lparr>heap := (?a, CodecContext (new_context cd)) # heap w\<rparr>)"
  have G: "get_codec_context L (codec_id pParam) decoder_name w = (Inr (Some ?a), w1)"
    using D M by (simp add: get_codec_context_run w1_def)
  have h1: "heap w1 = (?a, CodecContext (new_context cd)) # heap w"
    by (simp add: w1_def log_def)
  define r where "r = init_codec_context L (Some ?a) pParam decoder_name decoder_option w1"
  have r: "init_codec_context L (Some ?a) pParam decoder_name decoder_option w1 = (fst r, snd r)"
    by (simp add: r_def)
  note I = init_codec_context_run [OF h1 refl P, of decoder_name decoder_option r2 rest ch,
      unfolded D, OF O, folded r_def]
  show "fst (AVCodecContextPtr L pParam decoder_name decoder_option w) =
           (if r1 < 0 then Inl (runtime_error ''Failed to set CodecContext parameter.'')
            else if r2 < 0 then Inl (runtime_error ''Failed to initialize CodecContext.'')
            else if rest \<noteq> [] then
              Inl (runtime_error (''Unexpected decoder options: '' @ quoted_csv (map fst rest)))
            else Inr (\<lparr>ptr = Some (fresh (heap w))\<rparr>,
                      if codec_type pParam = AVMEDIA_TYPE_AUDIO \<and> channel_layout pParam = 0
                      then pParam\<lparr>channel_layout := av_get_default_channel_layout L ch\<rparr>
                      else pParam))"
    unfolding AVCodecContextPtr_def bind_def [of "get_codec_context L (codec_id pParam) decoder_name"] G
    using I
    by (simp add: r Wrapper_dtor_def AVCodecContextDeleter_def avcodec_free_context_def
        run_defs heap_simps)
  show "heap (snd (AVCodecContextPtr L pParam decoder_name decoder_option w)) =
           (if r1 < 0 then heap w
            else if r2 < 0 then
              (if rest = [] then [] else [(Suc (fresh (heap w)), Dictionary rest)]) @ heap w
            else if rest \<noteq> [] then heap w
            else (fresh (heap w),
                  CodecContext ((new_context cd)\<lparr>par := Some pParam, is_open := True,
                                                 channels := ch\<rparr>)) # heap w)"
    unfolding AVCodecContextPtr_def bind_def [of "get_codec_context L (codec_id pParam) decoder_name"] G
    using I
    by (simp add: r Wrapper_dtor_def AVCodecContextDeleter_def avcodec_free_context_def
        run_defs heap_simps)
qed


subsection \<open>The constructors, run symbolically\<close>

lemma option_error_simps:
  "\<not> option_error (Inr x)"
  "\<not> option_error (Inl segfault)"
  "option_error (Inl (runtime_error m)) =
     (prefix ''Unexpected options: '' m \<or> prefix ''Unexpected decoder options: '' m)"
  by (simp_all add: option_error_def)

lemma AVCodecContextPtr_not_found:
  assumes "find_decoder L (codec_id pParam) decoder_name = None"
  shows "AVCodecContextPtr L pParam decoder_name decoder_option w =
           (Inl (std_runtime_error
              (if decoder_name = [] then unsupported_id L (codec_id pParam)
               else unsupported_name decoder_name)), w)"
  using assms by (simp add: AVCodecContextPtr_def bind_def get_codec_context_run)

lemma AVCodecContextPtr_no_memory:
  assumes "find_decoder L (codec_id pParam) decoder_name = Some cd" and "no_memory L w"
  shows "AVCodecContextPtr L pParam decoder_name decoder_option w =
           (Inl (runtime_error ''Failed to allocate CodecContext.''),
            log ''avcodec_alloc_context3'' None w)"
  using assms by (simp add: AVCodecContextPtr_def bind_def get_codec_context_run)

lemma AVPacketPtr_run:
  "AVPacketPtr L w =
     (if no_memory L w then
        (Inl (runtime_error ''Failed to allocate AVPacket object.''), log ''av_packet_alloc'' None w)
      else (Inr \<lparr>ptr = Some (fresh (heap w))\<rparr>,
            log ''av_packet_alloc'' (Some (fresh (heap w)))
              (w\<lparr>heap := (fresh (heap w), Packet []) # heap w\<rparr>)))"
  by (simp add: AVPacketPtr_def get_av_packet_def av_packet_alloc_def run_defs)

lemma AVFramePtr_run:
  "AVFramePtr L w =
     (if no_memory L w then
        (Inl (runtime_error ''Failed to allocate AVFrame object.''), log ''av_frame_alloc'' None w)
      else (Inr \<lparr>ptr = Some (fresh (heap w))\<rparr>,
            log ''av_frame_alloc'' (Some (fresh (heap w)))
              (w\<lparr>heap := (fresh (heap w), Frame) # heap w\<rparr>)))"
  by (simp add: AVFramePtr_def get_av_frame_def av_frame_alloc_def run_defs)

lemma get_filter_graph_run:
  "get_filter_graph L w =
     (if no_memory L w then
        (Inl (runtime_error ''Failed to allocate resouce.''), log ''avfilter_graph_alloc'' None w)
      else (Inr (Some (fresh (heap w))),
            log ''avfilter_graph_alloc'' (Some (fresh (heap w)))
              (w\<lparr>heap := (fresh (heap w), FilterGraph []) # heap w\<rparr>)))"
  by (simp add: get_filter_graph_def avfilter_graph_alloc_def run_defs)

lemma AVFilterGraphPtr_run:
  "AVFilterGraphPtr L w =
     (if no_memory L w then
        (Inl (runtime_error ''Failed to allocate resouce.''), log ''avfilter_graph_alloc'' None w)
      else (Inr \<lparr>ptr = Some (fresh (heap w))\<rparr>,
            log ''avfilter_graph_alloc'' (Some (fresh (heap w)))
              (w\<lparr>heap := (fresh (heap w), FilterGraph []) # heap w\<rparr>)))"
  by (simp add: AVFilterGraphPtr_def get_filter_graph_run bind_def ok_def)

lemma heap_log: "heap (log f p w) = heap w"
  by (simp add: log_def)

lemma load_log: "load (log f p w) a = load w a"
  by (simp add: log_def load_def)

lemma AVCodecContextPtr_outcome:
  fixes L pParam decoder_name decoder_option w
  defines "R \<equiv> AVCodecContextPtr L pParam decoder_name decoder_option w"
  shows "(\<forall>cd. find_decoder L (codec_id pParam) decoder_name = Some cd \<and> no_memory L w \<longrightarrow>
            fst R = Inl (runtime_error ''Failed to allocate CodecContext.'') \<and>
            heap (snd R) = heap w) \<and>
         (\<forall>this p. fst R = Inr (this, p) \<longrightarrow>
            (\<exists>cd ch. find_decoder L (codec_id pParam) decoder_name = Some cd \<and>
               wraps (snd R) this
                 (CodecContext \<lparr>codec = cd, par = Some pParam, is_open = True, channels = ch\<rparr>) \<and>
               p = (if codec_type pParam = AVMEDIA_TYPE_AUDIO \<and> channel_layout pParam = 0
                    then pParam\<lparr>channel_layout := av_get_default_channel_layout L ch\<rparr>
                    else pParam))) \<and>
         (\<forall>e. fst R = Inl e \<longrightarrow>
            (\<forall>a c. load (snd R) a = Some (CodecContext c) \<longrightarrow> load w a = Some (CodecContext c)))"
proof (cases "find_decoder L (codec_id pParam) decoder_name")
  case None
  then show ?thesis
    unfolding R_def by (simp add: AVCodecContextPtr_not_found)
next
  case (Some cd)
  show ?thesis
  proof (cases "no_memory L w")
    case True
    with Some show ?thesis
      unfolding R_def by (simp add: AVCodecContextPtr_no_memory heap_log load_log)
  next
    case False
    obtain r2 rest ch where O: "open2 L ((new_context cd)\<lparr>par := Some pParam\<rparr>) (Some cd)
        (option_entries L decoder_option) = (r2, rest, ch)"
      by (cases "open2 L ((new_context cd)\<lparr>par := Some pParam\<rparr>) (Some cd)
        (option_entries L decoder_option)") auto
    note run = AVCodecContextPtr_run [OF Some False refl O, folded R_def]
    have not_fresh: "load w (fresh (heap w)) = None" "load w (Suc (fresh (heap w))) = None"
      by (simp_all add: load_def map_of_above_fresh)
    show ?thesis
      using Some False run not_fresh
      by (auto simp: wraps_def load_def new_context_def split: if_splits)
  qed
qed

lemma live_dom: "live w = dom (load w)"
  by (simp add: live_def load_def [abs_def] dom_map_of_conv_image_fst)

lemma load_store: "load (store a v w) b = (if b = a then Some v else load w b)"
  by (simp add: load_def store_def update_conv')

lemma load_release: "load (release (Some a) w) b = (if b = a then None else load w b)"
  by (simp add: load_def release_def delete_conv')

lemma load_cons: "load (w\<lparr>heap := (a, v) # heap w\<rparr>) b = (if b = a then Some v else load w b)"
  by (simp add: load_def)

lemma load_fresh: "load w (fresh (heap w)) = None"
  by (simp add: load_def map_of_above_fresh)

subsection \<open>Decimal numerals and substrings\<close>

lemma digit_value: "d < 10 \<Longrightarrow> of_char (''0123456789'' ! d) - 48 = d"
proof -
  assume "d < 10"
  then have "d = 0 \<or> d = 1 \<or> d = 2 \<or> d = 3 \<or> d = 4 \<or> d = 5 \<or> d = 6 \<or> d = 7 \<or> d = 8 \<or> d = 9"
    by arith
  then show ?thesis by (elim disjE) simp_all
qed

lemma read_nat_snoc: "read_nat (s @ [c]) = 10 * read_nat s + (of_char c - 48)"
  by (simp add: read_nat_def)

lemma read_show_nat: "read_nat (show_nat n) = n"
proof (induction n rule: show_nat.induct)
  case (1 n)
  show ?case
  proof (cases "n < 10")
    case True
    then show ?thesis
      by (subst show_nat.simps) (simp add: read_nat_def digit_value)
  next
    case False
    then have "read_nat (show_nat n) = 10 * read_nat (show_nat (n div 10)) + (n mod 10)"
      by (subst show_nat.simps) (simp add: read_nat_snoc digit_value)
    also have "\<dots> = 10 * (n div 10) + n mod 10"
      using "1.IH" [OF False] by simp
    finally show ?thesis by simp
  qed
qed

lemma sublist_middle: "sublist xs (ps @ xs @ ss)"
  unfolding sublist_def by blast

subsection \<open>Messages as C strings\<close>

lemma c_str_no_nul: "CHR 0x00 \<notin> set s \<Longrightarrow> c_str s = s"
  by (auto simp: c_str_def takeWhile_eq_all_conv)

lemma c_str_append:
  "c_str (a @ b) = (if CHR 0x00 \<in> set a then c_str a else a @ c_str b)"
  by (auto simp: c_str_def takeWhile_append)

lemma no_nul_c_str: "CHR 0x00 \<notin> set (c_str s)"
  by (auto simp: c_str_def dest: set_takeWhileD)

lemma sublist_c_str_append: "sublist (c_str x) (c_str (x @ y))"
  by (simp add: c_str_append c_str_no_nul)

lemma sublist_in_right: "sublist xs ys \<Longrightarrow> sublist xs (ps @ ys)"
proof -
  assume "sublist xs ys"
  then obtain a b where "ys = a @ xs @ b" by (auto simp: sublist_def)
  then have "ps @ ys = (ps @ a) @ xs @ b" by simp
  then show ?thesis unfolding sublist_def by blast
qed

lemma c_str_message:
  assumes A: "CHR 0x00 \<notin> set A"
  shows "sublist (c_str s) (c_str (A @ s @ T))"
    and "CHR 0x00 \<notin> set s \<Longrightarrow> sublist s (c_str (A @ s @ T))"
proof -
  have h: "c_str (A @ s @ T) = A @ c_str (s @ T)"
    using A by (simp add: c_str_append)
  show "sublist (c_str s) (c_str (A @ s @ T))"
    unfolding h by (rule sublist_in_right [OF sublist_c_str_append])
  assume "CHR 0x00 \<notin> set s"
  then have "c_str (s @ T) = s @ c_str T"
    by (simp add: c_str_append)
  then show "sublist s (c_str (A @ s @ T))"
    unfolding h by (simp add: sublist_middle)
qed

lemma c_str_message_tail:
  assumes A: "CHR 0x00 \<notin> set A" and s: "CHR 0x00 \<notin> set s" and B: "CHR 0x00 \<notin> set B"
  shows "sublist (c_str e) (c_str (A @ s @ B @ e @ C))"
proof -
  have "CHR 0x00 \<notin> set (A @ s @ B)"
    using A s B by simp
  then have "c_str ((A @ s @ B) @ e @ C) = (A @ s @ B) @ c_str (e @ C)"
    by (simp only: c_str_append if_False)
  moreover have "sublist (c_str e) ((A @ s @ B) @ c_str (e @ C))"
    by (rule sublist_in_right [OF sublist_c_str_append])
  ultimately show ?thesis by simp
qed

lemma digit_no_nul: "d < 10 \<Longrightarrow> ''0123456789'' ! d \<noteq> CHR 0x00"
proof -
  assume "d < 10"
  then have "d = 0 \<or> d = 1 \<or> d = 2 \<or> d = 3 \<or> d = 4 \<or> d = 5 \<or> d = 6 \<or> d = 7 \<or> d = 8 \<or> d = 9"
    by arith
  then show ?thesis by (elim disjE) simp_all
qed

lemma show_nat_no_nul: "CHR 0x00 \<notin> set (show_nat n)"
proof (induction n rule: show_nat.induct)
  case (1 n)
  show ?case
  proof (cases "n < 10")
    case True
    then show ?thesis
      using digit_no_nul [of n] by (subst show_nat.simps) auto
  next
    case False
    then show ?thesis
      using "1.IH" digit_no_nul [of "n mod 10"] by (subst show_nat.simps) auto
  qed
qed

lemma show_int_no_nul: "CHR 0x00 \<notin> set (show_int i)"
  by (simp add: show_int_def show_nat_no_nul)

text \<open>The open error as delivered: the literal head, then the rest up to the first NUL.\<close>

lemma c_str_open_error:
  "c_str (open_error L src ret) =
     ''Failed to open the input '' @ dquote @
     c_str (src @ dquote @ '' ('' @ av_err2string L ret @ '').'')"
  by (simp add: open_error_def c_str_def dquote_def)

text \<open>The message about an unknown codec id holds no NUL, so it is delivered whole.\<close>

lemma std_runtime_error_unsupported_id:
  "std_runtime_error (unsupported_id L cid) = runtime_error (unsupported_id L cid)"
proof -
  have "CHR 0x00 \<notin> set (unsupported_id L cid)"
    using no_nul_c_str [of "avcodec_get_name L cid"] show_int_no_nul [of cid]
    by (simp add: unsupported_id_def dquote_def)
  then show ?thesis
    by (simp add: std_runtime_error_def c_str_no_nul)
qed

lemma open_error_parts:
  "open_error L src ret =
     (''Failed to open the input '' @ dquote) @ src @ (dquote @ '' ('') @ av_err2string L ret @ '').''"
  by (simp add: open_error_def)

lemma open_error_head: "CHR 0x00 \<notin> set (''Failed to open the input '' @ dquote)"
  by (simp add: dquote_def)

lemma open_error_mid: "CHR 0x00 \<notin> set (dquote @ '' ('')"
  by (simp add: dquote_def)

lemma unsupported_name_parts:
  "unsupported_name decoder_name = (''Unsupported codec: '' @ dquote) @ decoder_name @ (dquote @ ''.'')"
  by (simp add: unsupported_name_def)

lemma unsupported_name_head: "CHR 0x00 \<notin> set (''Unsupported codec: '' @ dquote)"
  by (simp add: dquote_def)

lemma not_option_error_open: "\<not> option_error (Inl (std_runtime_error (open_error L src ret)))"
  by (simp add: option_error_def std_runtime_error_def c_str_open_error)

subsection \<open>Opening an input: which error is raised\<close>

text \<open>
  C10. In the construction of a format context the check for unused options comes before
  the check of the open status: when the open call reports a negative status and option
  keys are left over as well, the error raised is the one about the options, not the one
  about the failed open.
\<close>

theorem unused_option_check_precedes_open_status:
  assumes "open_input L (c_str src) (input_format L device) (option_entries L option) = (ret, rest)"
    and "ret < 0" and "rest \<noteq> []"
  shows "fst (AVFormatContextPtr L src device option w) =
           Inl (runtime_error (''Unexpected options: '' @ quoted_csv (map fst rest))) \<and>
         fst (AVFormatContextPtr L src device option w) \<noteq>
           Inl (runtime_error (open_error L src ret)) \<and>
         fst (AVFormatContextPtr L src device option w) \<noteq>
           Inl (std_runtime_error (open_error L src ret))"
  using assms
  by (simp add: AVFormatContextPtr_run std_runtime_error_def c_str_open_error)
     (simp add: open_error_def)

theorem unused_option_check_precedes_open_status_witness:
  "open_input sample_ffmpeg (c_str ''b.wav'') (input_format sample_ffmpeg [])
     (option_entries sample_ffmpeg [(''foo'', ''bar'')]) = (- 2, [(''foo'', ''bar'')]) \<and>
   fst (AVFormatContextPtr sample_ffmpeg ''b.wav'' [] [(''foo'', ''bar'')] empty_world) =
     Inl (runtime_error (''Unexpected options: '' @ dquote @ ''foo'' @ dquote))"
proof -
  have h: "open_input sample_ffmpeg (c_str ''b.wav'') (input_format sample_ffmpeg [])
     (option_entries sample_ffmpeg [(''foo'', ''bar'')]) = (- 2, [(''foo'', ''bar'')])"
    by (simp add: sample_ffmpeg_def c_str_def input_format_def option_entries_def)
  show ?thesis
    using h unused_option_check_precedes_open_status [OF h, of empty_world] by simp
qed

text \<open>
  C5, as stated: whenever the open call reports a negative status, the constructor fails
  with the open error, whose message contains the source path and the library's error text.
  It fails in two ways. With an option left over, the error is the one about the option:
  opening the missing file \<open>b.wav\<close> with the option \<open>foo\<close> gives a message without the path.
  And the message of the open error is delivered as a C string: for the missing source
  \<open>b.wav\<close>, NUL, \<open>zz\<close> it ends after \<open>b.wav\<close> and contains neither the path as given nor the
  library's text.
\<close>

theorem open_error_counterexample:
  "(fst (open_input sample_ffmpeg (c_str ''b.wav'') (input_format sample_ffmpeg [])
           (option_entries sample_ffmpeg [(''foo'', ''bar'')])) < 0 \<and>
    fst (AVFormatContextPtr sample_ffmpeg ''b.wav'' [] [(''foo'', ''bar'')] empty_world) =
      Inl (runtime_error (''Unexpected options: '' @ dquote @ ''foo'' @ dquote)) \<and>
    \<not> sublist ''b.wav'' (''Unexpected options: '' @ dquote @ ''foo'' @ dquote)) \<and>
   (open_input sample_ffmpeg (c_str (''b.wav'' @ [CHR 0x00] @ ''zz'')) (input_format sample_ffmpeg [])
      (option_entries sample_ffmpeg []) = (- 2, []) \<and>
    fst (AVFormatContextPtr sample_ffmpeg (''b.wav'' @ [CHR 0x00] @ ''zz'') [] [] empty_world) =
      Inl (runtime_error (''Failed to open the input '' @ dquote @ ''b.wav'')) \<and>
    \<not> sublist (''b.wav'' @ [CHR 0x00] @ ''zz'') (''Failed to open the input '' @ dquote @ ''b.wav'') \<and>
    \<not> sublist (av_err2string sample_ffmpeg (- 2)) (''Failed to open the input '' @ dquote @ ''b.wav''))"
  by code_simp

text \<open>
  C5, amended: when the open call reports a negative status and no option is left over, the
  constructor fails with the open error. Its message is the text built from the source path
  and the library's error text for that status, up to the first NUL of that text. It always
  contains the source path as the open call received it (the path up to its first NUL).
  When the path holds no NUL, the message contains the path as given and the library's error
  text (as a C string); when the error text holds no NUL either, the message is the whole
  text.
\<close>

theorem open_error_message:
  assumes "open_input L (c_str src) (input_format L device) (option_entries L option) = (ret, rest)"
    and "ret < 0" and "rest = []"
  shows "fst (AVFormatContextPtr L src device option w) =
           Inl (runtime_error (c_str (open_error L src ret))) \<and>
         sublist (c_str src) (c_str (open_error L src ret)) \<and>
         (CHR 0x00 \<notin> set src \<longrightarrow>
            sublist src (c_str (open_error L src ret)) \<and>
            sublist (c_str (av_err2string L ret)) (c_str (open_error L src ret))) \<and>
         (CHR 0x00 \<notin> set src \<and> CHR 0x00 \<notin> set (av_err2string L ret) \<longrightarrow>
            c_str (open_error L src ret) = open_error L src ret)"
proof (intro conjI impI)
  show "fst (AVFormatContextPtr L src device option w) =
      Inl (runtime_error (c_str (open_error L src ret)))"
    using assms by (simp add: AVFormatContextPtr_run std_runtime_error_def)
  show "sublist (c_str src) (c_str (open_error L src ret))"
    unfolding open_error_parts by (rule c_str_message(1) [OF open_error_head])
  { assume clean: "CHR 0x00 \<notin> set src"
    show "sublist src (c_str (open_error L src ret))"
      unfolding open_error_parts by (rule c_str_message(2) [OF open_error_head clean])
    show "sublist (c_str (av_err2string L ret)) (c_str (open_error L src ret))"
      unfolding open_error_parts
      by (rule c_str_message_tail [OF open_error_head clean open_error_mid]) }
  { assume clean: "CHR 0x00 \<notin> set src \<and> CHR 0x00 \<notin> set (av_err2string L ret)"
    have "CHR 0x00 \<notin> set (open_error L src ret)"
      unfolding open_error_parts using clean open_error_head open_error_mid by simp
    then show "c_str (open_error L src ret) = open_error L src ret"
      by (rule c_str_no_nul) }
qed

theorem open_error_message_witness:
  "open_input sample_ffmpeg (c_str ''b.wav'') (input_format sample_ffmpeg [])
     (option_entries sample_ffmpeg []) = (- 2, []) \<and>
   CHR 0x00 \<notin> set ''b.wav'' \<and> CHR 0x00 \<notin> set (av_err2string sample_ffmpeg (- 2)) \<and>
   fst (AVFormatContextPtr sample_ffmpeg ''b.wav'' [] [] empty_world) =
     Inl (runtime_error (''Failed to open the input '' @ dquote @ ''b.wav'' @ dquote @
            '' (No such file or directory).'')) \<and>
   sublist ''b.wav'' (c_str (open_error sample_ffmpeg ''b.wav'' (- 2))) \<and>
   sublist ''No such file or directory'' (c_str (open_error sample_ffmpeg ''b.wav'' (- 2)))"
proof -
  have h: "open_input sample_ffmpeg (c_str ''b.wav'') (input_format sample_ffmpeg [])
     (option_entries sample_ffmpeg []) = (- 2, [])"
    by (simp add: sample_ffmpeg_def c_str_def input_format_def option_entries_def)
  have n: "CHR 0x00 \<notin> set ''b.wav''" "CHR 0x00 \<notin> set (av_err2string sample_ffmpeg (- 2))"
    by (simp_all add: sample_ffmpeg_def)
  have e: "c_str (av_err2string sample_ffmpeg (- 2)) = ''No such file or directory''"
    by (simp add: sample_ffmpeg_def c_str_def)
  have m: "open_error sample_ffmpeg ''b.wav'' (- 2) =
       ''Failed to open the input '' @ dquote @ ''b.wav'' @ dquote @ '' (No such file or directory).''"
    by (simp add: sample_ffmpeg_def open_error_def)
  have lt: "(- 2 :: int) < 0"
    by simp
  note T = open_error_message [OF h lt refl, of empty_world]
  from T n have whole: "c_str (open_error sample_ffmpeg ''b.wav'' (- 2)) =
      open_error sample_ffmpeg ''b.wav'' (- 2)"
    by blast
  from T have r0: "fst (AVFormatContextPtr sample_ffmpeg ''b.wav'' [] [] empty_world) =
      Inl (runtime_error (c_str (open_error sample_ffmpeg ''b.wav'' (- 2))))"
    by blast
  have r: "fst (AVFormatContextPtr sample_ffmpeg ''b.wav'' [] [] empty_world) =
     Inl (runtime_error (''Failed to open the input '' @ dquote @ ''b.wav'' @ dquote @
            '' (No such file or directory).''))"
    using r0 [unfolded whole] unfolding m .
  from T n have s1: "sublist ''b.wav'' (c_str (open_error sample_ffmpeg ''b.wav'' (- 2)))"
    by blast
  from T n have "sublist (c_str (av_err2string sample_ffmpeg (- 2)))
      (c_str (open_error sample_ffmpeg ''b.wav'' (- 2)))"
    by blast
  then have s2: "sublist ''No such file or directory''
      (c_str (open_error sample_ffmpeg ''b.wav'' (- 2)))"
    unfolding e .
  from h n r s1 s2 show ?thesis by blast
qed

text \<open>
  C6, as stated: a device name that is not empty and does not resolve to an input format
  makes the constructor fail. It does not: the open call is given a null format, probes the
  input itself, and the construction succeeds.
\<close>

theorem unresolved_device_counterexample:
  "av_find_input_format sample_ffmpeg (c_str ''bogus'') = None \<and>
   fst (AVFormatContextPtr sample_ffmpeg ''a.wav'' ''bogus'' [] empty_world) = Inr \<lparr>ptr = Some 1\<rparr>"
  by code_simp

text \<open>
  C6, amended: a device name that does not resolve raises no error of its own. The open call
  receives a null format descriptor, and the constructor does exactly what it does for an
  empty device name: it fails only if the open call, the option check or the stream probing
  fails.
\<close>

theorem unresolved_device_as_no_device:
  assumes "device \<noteq> []" and "av_find_input_format L (c_str device) = None"
  shows "AVFormatContextPtr L src device option w = AVFormatContextPtr L src [] option w"
  using assms by (simp add: AVFormatContextPtr_def get_format_context_def)

theorem unresolved_device_as_no_device_witness:
  "''bogus'' \<noteq> [] \<and> av_find_input_format sample_ffmpeg (c_str ''bogus'') = None \<and>
   AVFormatContextPtr sample_ffmpeg ''a.wav'' ''bogus'' [] empty_world =
   AVFormatContextPtr sample_ffmpeg ''a.wav'' [] [] empty_world"
proof -
  have h1: "''bogus'' \<noteq> []" by simp
  have h2: "av_find_input_format sample_ffmpeg (c_str ''bogus'') = None"
    by (simp add: sample_ffmpeg_def c_str_def)
  show ?thesis
    using h1 h2 unresolved_device_as_no_device [OF h1 h2, of "''a.wav''" "[]" empty_world] by simp
qed

subsection \<open>Unconsumed options\<close>

text \<open>
  C1, as stated: for both constructors, entries left in the dictionary after the open call
  make the construction fail with the error that lists them. For the codec context this
  fails when the codec-open call itself reports a negative status: the status is checked
  first, and the error is the one about the failed initialisation although the option
  \<open>foo\<close> is left over.
\<close>

theorem codec_option_error_counterexample:
  "fst (snd (open2 failing_decoder ((new_context 0)\<lparr>par := Some sample_params\<rparr>) (Some 0)
               (option_entries failing_decoder [(''foo'', ''bar'')]))) = [(''foo'', ''bar'')] \<and>
   fst (AVCodecContextPtr failing_decoder sample_params [] [(''foo'', ''bar'')] empty_world) =
     Inl (runtime_error ''Failed to initialize CodecContext.'')"
  by code_simp

text \<open>
  C1, amended: for a format context, entries left over after the open call always make the
  construction fail with the option error, whose message lists exactly the leftover keys, in
  dictionary order, each between double quotes, separated by a comma and a space. For a codec
  context (decoder found, context allocated, parameters copied) the same holds when the
  codec-open call succeeded; when that call reports a negative status the error is the
  codec-open error. For both, when no entry is left over no option error is raised.
\<close>

theorem unconsumed_options_reported:
  "(open_input L (c_str src) (input_format L device) (option_entries L option) = (ret, rest) \<longrightarrow>
      (rest \<noteq> [] \<longrightarrow>
         fst (AVFormatContextPtr L src device option w) =
           Inl (runtime_error (''Unexpected options: '' @ quoted_csv (map fst rest)))) \<and>
      (rest = [] \<longrightarrow> \<not> option_error (fst (AVFormatContextPtr L src device option w)))) \<and>
   (find_decoder L (codec_id pParam) decoder_name = Some cd \<and> \<not> no_memory L w \<and>
    0 \<le> parameters_to_context L (new_context cd) pParam \<and>
    open2 L ((new_context cd)\<lparr>par := Some pParam\<rparr>) (Some cd)
      (option_entries L decoder_option) = (r2, rest2, ch) \<longrightarrow>
      (0 \<le> r2 \<and> rest2 \<noteq> [] \<longrightarrow>
         fst (AVCodecContextPtr L pParam decoder_name decoder_option w) =
           Inl (runtime_error (''Unexpected decoder options: '' @ quoted_csv (map fst rest2)))) \<and>
      (r2 < 0 \<longrightarrow>
         fst (AVCodecContextPtr L pParam decoder_name decoder_option w) =
           Inl (runtime_error ''Failed to initialize CodecContext.'')) \<and>
      (rest2 = [] \<longrightarrow>
         \<not> option_error (fst (AVCodecContextPtr L pParam decoder_name decoder_option w))))"
proof (intro conjI impI)
  assume "open_input L (c_str src) (input_format L device) (option_entries L option) = (ret, rest)"
  note F = AVFormatContextPtr_run(1) [OF this, of w]
  { assume "rest \<noteq> []"
    with F show "fst (AVFormatContextPtr L src device option w) =
        Inl (runtime_error (''Unexpected options: '' @ quoted_csv (map fst rest)))"
      by simp }
  { assume "rest = []"
    with F show "\<not> option_error (fst (AVFormatContextPtr L src device option w))"
      by (simp add: option_error_simps not_option_error_open) }
next
  assume A: "find_decoder L (codec_id pParam) decoder_name = Some cd \<and> \<not> no_memory L w \<and>
    0 \<le> parameters_to_context L (new_context cd) pParam \<and>
    open2 L ((new_context cd)\<lparr>par := Some pParam\<rparr>) (Some cd)
      (option_entries L decoder_option) = (r2, rest2, ch)"
  then have C: "fst (AVCodecContextPtr L pParam decoder_name decoder_option w) =
      (if r2 < 0 then Inl (runtime_error ''Failed to initialize CodecContext.'')
       else if rest2 \<noteq> [] then
         Inl (runtime_error (''Unexpected decoder options: '' @ quoted_csv (map fst rest2)))
       else Inr (\<lparr>ptr = Some (fresh (heap w))\<rparr>,
                 if codec_type pParam = AVMEDIA_TYPE_AUDIO \<and> channel_layout pParam = 0
                 then pParam\<lparr>channel_layout := av_get_default_channel_layout L ch\<rparr>
                 else pParam))"
    using AVCodecContextPtr_run(1) [of L pParam decoder_name cd w
        "parameters_to_context L (new_context cd) pParam" decoder_option r2 rest2 ch]
    by simp
  { assume "0 \<le> r2 \<and> rest2 \<noteq> []"
    with C show "fst (AVCodecContextPtr L pParam decoder_name decoder_option w) =
        Inl (runtime_error (''Unexpected decoder options: '' @ quoted_csv (map fst rest2)))"
      by simp }
  { assume "r2 < 0"
    with C show "fst (AVCodecContextPtr L pParam decoder_name decoder_option w) =
        Inl (runtime_error ''Failed to initialize CodecContext.'')"
      by simp }
  { assume "rest2 = []"
    with C show "\<not> option_error (fst (AVCodecContextPtr L pParam decoder_name decoder_option w))"
      by (simp add: option_error_simps) }
qed

theorem unconsumed_options_reported_witness:
  "fst (AVFormatContextPtr sample_ffmpeg ''a.wav'' [] [(''foo'', ''1''), (''probesize'', ''32''), (''zoo'', ''2'')]
          empty_world) =
     Inl (runtime_error (''Unexpected options: '' @ dquote @ ''foo'' @ dquote @ '', '' @ dquote @ ''zoo'' @ dquote)) \<and>
   fst (AVCodecContextPtr sample_ffmpeg sample_params [] [(''threads'', ''1''), (''x'', ''y'')] empty_world) =
     Inl (runtime_error (''Unexpected decoder options: '' @ dquote @ ''x'' @ dquote)) \<and>
   \<not> option_error (fst (AVFormatContextPtr sample_ffmpeg ''a.wav'' [] [(''probesize'', ''32'')] empty_world)) \<and>
   \<not> option_error (fst (AVCodecContextPtr sample_ffmpeg sample_params [] [(''threads'', ''1'')] empty_world))"
proof -
  have f1: "open_input sample_ffmpeg (c_str ''a.wav'') (input_format sample_ffmpeg [])
      (option_entries sample_ffmpeg [(''foo'', ''1''), (''probesize'', ''32''), (''zoo'', ''2'')]) =
      (0, [(''foo'', ''1''), (''zoo'', ''2'')])"
    by (simp add: sample_ffmpeg_def c_str_def input_format_def option_entries_def)
  have f2: "open_input sample_ffmpeg (c_str ''a.wav'') (input_format sample_ffmpeg [])
      (option_entries sample_ffmpeg [(''probesize'', ''32'')]) = (0, [])"
    by (simp add: sample_ffmpeg_def c_str_def input_format_def option_entries_def)
  have c0: "find_decoder sample_ffmpeg (codec_id sample_params) [] = Some 0 \<and>
      \<not> no_memory sample_ffmpeg empty_world \<and>
      0 \<le> parameters_to_context sample_ffmpeg (new_context 0) sample_params"
    by (simp add: sample_ffmpeg_def sample_params_def find_decoder_def)
  have c1: "open2 sample_ffmpeg ((new_context 0)\<lparr>par := Some sample_params\<rparr>) (Some 0)
      (option_entries sample_ffmpeg [(''threads'', ''1''), (''x'', ''y'')]) = (0, [(''x'', ''y'')], 2)"
    by (simp add: sample_ffmpeg_def c_str_def option_entries_def)
  have c2: "open2 sample_ffmpeg ((new_context 0)\<lparr>par := Some sample_params\<rparr>) (Some 0)
      (option_entries sample_ffmpeg [(''threads'', ''1'')]) = (0, [], 2)"
    by (simp add: sample_ffmpeg_def c_str_def option_entries_def)
  show ?thesis
    using
      unconsumed_options_reported [of sample_ffmpeg "''a.wav''" "[]"
        "[(''foo'', ''1''), (''probesize'', ''32''), (''zoo'', ''2'')]" 0
        "[(''foo'', ''1''), (''zoo'', ''2'')]" empty_world sample_params "[]" 0
        "[(''threads'', ''1''), (''x'', ''y'')]" 0 "[(''x'', ''y'')]" 2]
      unconsumed_options_reported [of sample_ffmpeg "''a.wav''" "[]"
        "[(''probesize'', ''32'')]" 0 "[]" empty_world sample_params "[]" 0
        "[(''threads'', ''1'')]" 0 "[]" 2]
      f1 f2 c0 c1 c2
    by simp
qed

subsection \<open>Release on failure\<close>

text \<open>
  C2: on every failure path of every constructor, what was allocated before the failure is
  released; in particular a format context that opened and then fails the option check is
  closed. The code does not do that: \<^verbatim>\<open>get_format_context\<close> throws on leftover options
  while the opened context is still a raw pointer that no handle owns. Opening \<open>a.wav\<close>
  with the unknown option \<open>foo\<close> ends with the error, the context still on the heap, and no
  call of \<^verbatim>\<open>avformat_close_input\<close>.
\<close>

theorem format_context_leak:
  "AVFormatContextPtr sample_ffmpeg ''a.wav'' [] [(''foo'', ''bar'')] empty_world =
     (Inl (runtime_error (''Unexpected options: '' @ dquote @ ''foo'' @ dquote)),
      \<lparr>heap = [(2, FormatContext ''a.wav'' False)],
       calls = [(''av_dict_set'', Some 1), (''avformat_open_input'', Some 2),
                (''av_dict_free'', Some 1)]\<rparr>)"
  by code_simp

text \<open>
  The same for every library and every input: whenever the open call succeeds and leaves an
  option over, the constructor throws and the opened, unprobed context stays at an address
  that was not live before.
\<close>

lemma option_error_leaves_context:
  assumes "open_input L (c_str src) (input_format L device) (option_entries L option) = (ret, rest)"
    and "0 \<le> ret" and "rest \<noteq> []"
  shows "fst (AVFormatContextPtr L src device option w) =
           Inl (runtime_error (''Unexpected options: '' @ quoted_csv (map fst rest))) \<and>
         load (snd (AVFormatContextPtr L src device option w)) (Suc (fresh (heap w))) =
           Some (FormatContext (c_str src) False) \<and>
         Suc (fresh (heap w)) \<notin> live w"
proof -
  have "Suc (fresh (heap w)) \<notin> live w"
    using key_less_fresh [of "Suc (fresh (heap w))" _ "heap w"] by (auto simp: live_def)
  then show ?thesis
    using assms AVFormatContextPtr_run [OF assms(1), of w] by (simp add: load_def)
qed

text \<open>
  The sibling path does release: when the stream probing fails, the handle is already built
  and its destructor closes the context.
\<close>

lemma failed_probe_closes:
  "AVFormatContextPtr (sample_ffmpeg\<lparr>find_stream_info := (\<lambda>url. - 1)\<rparr>) ''a.wav'' [] [] empty_world =
     (Inl (runtime_error ''Failed to find stream information.''),
      \<lparr>heap = [],
       calls = [(''avformat_open_input'', Some 1), (''av_dict_free'', None),
                (''avformat_find_stream_info'', Some 1), (''avformat_close_input'', Some 1)]\<rparr>)"
  by code_simp

text \<open>
  A second path of the same kind: when \<^verbatim>\<open>avcodec_open2\<close> fails, \<^verbatim>\<open>init_codec_context\<close>
  throws before \<^verbatim>\<open>clean_up_dict\<close>, the only place that frees the option dictionary, so the
  dictionary of leftover options stays on the heap (the codec context itself is freed by the
  handle).
\<close>

lemma option_dictionary_leak:
  "AVCodecContextPtr failing_decoder sample_params [] [(''threads'', ''1'')] empty_world =
     (Inl (runtime_error ''Failed to initialize CodecContext.''),
      \<lparr>heap = [(2, Dictionary [(''threads'', ''1'')])],
       calls = [(''avcodec_alloc_context3'', Some 1), (''avcodec_parameters_to_context'', Some 1),
                (''av_dict_set'', Some 2), (''avcodec_open2'', Some 1),
                (''avcodec_free_context'', Some 1)]\<rparr>)"
  by code_simp

subsection \<open>What a constructor returns\<close>

text \<open>
  C3, as stated: for each of the five handle types the constructor throws the allocation
  error when the native allocation returns null. The format context has no such error: its
  context is allocated inside the open call, a failed allocation is that call's negative
  status, and the constructor throws the open error.
\<close>

theorem format_context_allocation_counterexample:
  "AVFormatContextPtr no_memory_ffmpeg ''a.wav'' [] [] empty_world =
     (Inl (runtime_error (''Failed to open the input '' @ dquote @ ''a.wav'' @ dquote @
             '' (Cannot allocate memory).'')),
      \<lparr>heap = [], calls = [(''avformat_open_input'', None), (''av_dict_free'', None)]\<rparr>)"
  by code_simp

text \<open>
  C3, amended: every constructor either throws or yields a handle on a complete resource.
  For the packet, the frame, the filter graph and the codec context, an allocator that
  returns null gives the allocation error and leaves the heap as it was. For the format
  context, an open call that reports a negative status (for lack of memory or otherwise)
  gives the open error, or the option error when options are left over, and leaves the heap
  as it was. A handle that is returned points to a live object in its final state: a blank
  packet, a frame, an empty graph, a codec context of the decoder looked up, with the
  parameters copied and the codec opened, a format context whose stream information has been
  found. When the codec-context constructor throws after the allocation, the half-built
  context is gone: the only codec contexts on the heap are those that were there before.
\<close>

theorem constructors_yield_complete_handles:
  "((no_memory L w \<longrightarrow>
       fst (AVPacketPtr L w) = Inl (runtime_error ''Failed to allocate AVPacket object.'') \<and>
       heap (snd (AVPacketPtr L w)) = heap w) \<and>
    (\<forall>this. fst (AVPacketPtr L w) = Inr this \<longrightarrow> wraps (snd (AVPacketPtr L w)) this (Packet []))) \<and>
   ((no_memory L w \<longrightarrow>
       fst (AVFramePtr L w) = Inl (runtime_error ''Failed to allocate AVFrame object.'') \<and>
       heap (snd (AVFramePtr L w)) = heap w) \<and>
    (\<forall>this. fst (AVFramePtr L w) = Inr this \<longrightarrow> wraps (snd (AVFramePtr L w)) this Frame)) \<and>
   ((no_memory L w \<longrightarrow>
       fst (AVFilterGraphPtr L w) = Inl (runtime_error ''Failed to allocate resouce.'') \<and>
       heap (snd (AVFilterGraphPtr L w)) = heap w) \<and>
    (\<forall>this. fst (AVFilterGraphPtr L w) = Inr this \<longrightarrow>
       wraps (snd (AVFilterGraphPtr L w)) this (FilterGraph []))) \<and>
   ((\<forall>cd. find_decoder L (codec_id pParam) decoder_name = Some cd \<and> no_memory L w \<longrightarrow>
       fst (AVCodecContextPtr L pParam decoder_name decoder_option w) =
         Inl (runtime_error ''Failed to allocate CodecContext.'') \<and>
       heap (snd (AVCodecContextPtr L pParam decoder_name decoder_option w)) = heap w) \<and>
    (\<forall>this p. fst (AVCodecContextPtr L pParam decoder_name decoder_option w) = Inr (this, p) \<longrightarrow>
       (\<exists>cd ch. find_decoder L (codec_id pParam) decoder_name = Some cd \<and>
          wraps (snd (AVCodecContextPtr L pParam decoder_name decoder_option w)) this
            (CodecContext \<lparr>codec = cd, par = Some pParam, is_open = True, channels = ch\<rparr>))) \<and>
    (\<forall>e. fst (AVCodecContextPtr L pParam decoder_name decoder_option w) = Inl e \<longrightarrow>
       (\<forall>a c. load (snd (AVCodecContextPtr L pParam decoder_name decoder_option w)) a =
                Some (CodecContext c) \<longrightarrow>
              load w a = Some (CodecContext c)))) \<and>
   ((open_input L (c_str src) (input_format L device) (option_entries L option) = (ret, rest) \<and>
     ret < 0 \<longrightarrow>
       fst (AVFormatContextPtr L src device option w) =
         Inl (if rest \<noteq> [] then
                runtime_error (''Unexpected options: '' @ quoted_csv (map fst rest))
              else std_runtime_error (open_error L src ret)) \<and>
       heap (snd (AVFormatContextPtr L src device option w)) = heap w) \<and>
    (\<forall>this. fst (AVFormatContextPtr L src device option w) = Inr this \<longrightarrow>
       wraps (snd (AVFormatContextPtr L src device option w)) this
         (FormatContext (c_str src) True)))"
proof -
  have packet: "(no_memory L w \<longrightarrow>
       fst (AVPacketPtr L w) = Inl (runtime_error ''Failed to allocate AVPacket object.'') \<and>
       heap (snd (AVPacketPtr L w)) = heap w) \<and>
    (\<forall>this. fst (AVPacketPtr L w) = Inr this \<longrightarrow> wraps (snd (AVPacketPtr L w)) this (Packet []))"
    by (simp add: AVPacketPtr_run heap_log load_log wraps_def) (simp add: load_def)
  have frame: "(no_memory L w \<longrightarrow>
       fst (AVFramePtr L w) = Inl (runtime_error ''Failed to allocate AVFrame object.'') \<and>
       heap (snd (AVFramePtr L w)) = heap w) \<and>
    (\<forall>this. fst (AVFramePtr L w) = Inr this \<longrightarrow> wraps (snd (AVFramePtr L w)) this Frame)"
    by (simp add: AVFramePtr_run heap_log load_log wraps_def) (simp add: load_def)
  have graph: "(no_memory L w \<longrightarrow>
       fst (AVFilterGraphPtr L w) = Inl (runtime_error ''Failed to allocate resouce.'') \<and>
       heap (snd (AVFilterGraphPtr L w)) = heap w) \<and>
    (\<forall>this. fst (AVFilterGraphPtr L w) = Inr this \<longrightarrow>
       wraps (snd (AVFilterGraphPtr L w)) this (FilterGraph []))"
    by (simp add: AVFilterGraphPtr_run heap_log load_log wraps_def) (simp add: load_def)
  have codec: "(\<forall>cd. find_decoder L (codec_id pParam) decoder_name = Some cd \<and> no_memory L w \<longrightarrow>
       fst (AVCodecContextPtr L pParam decoder_name decoder_option w) =
         Inl (runtime_error ''Failed to allocate CodecContext.'') \<and>
       heap (snd (AVCodecContextPtr L pParam decoder_name decoder_option w)) = heap w) \<and>
    (\<forall>this p. fst (AVCodecContextPtr L pParam decoder_name decoder_option w) = Inr (this, p) \<longrightarrow>
       (\<exists>cd ch. find_decoder L (codec_id pParam) decoder_name = Some cd \<and>
          wraps (snd (AVCodecContextPtr L pParam decoder_name decoder_option w)) this
            (CodecContext \<lparr>codec = cd, par = Some pParam, is_open = True, channels = ch\<rparr>))) \<and>
    (\<forall>e. fst (AVCodecContextPtr L pParam decoder_name decoder_option w) = Inl e \<longrightarrow>
       (\<forall>a c. load (snd (AVCodecContextPtr L pParam decoder_name decoder_option w)) a =
                Some (CodecContext c) \<longrightarrow>
              load w a = Some (CodecContext c)))"
    using AVCodecContextPtr_outcome [of L pParam decoder_name w decoder_option] by blast
  have format_fail: "open_input L (c_str src) (input_format L device) (option_entries L option) =
        (ret, rest) \<and> ret < 0 \<longrightarrow>
       fst (AVFormatContextPtr L src device option w) =
         Inl (if rest \<noteq> [] then
                runtime_error (''Unexpected options: '' @ quoted_csv (map fst rest))
              else std_runtime_error (open_error L src ret)) \<and>
       heap (snd (AVFormatContextPtr L src device option w)) = heap w"
    by (simp add: AVFormatContextPtr_run)
  have format: "\<forall>this. fst (AVFormatContextPtr L src device option w) = Inr this \<longrightarrow>
      wraps (snd (AVFormatContextPtr L src device option w)) this (FormatContext (c_str src) True)"
  proof -
    obtain ret' rest' where O: "open_input L (c_str src) (input_format L device)
        (option_entries L option) = (ret', rest')"
      by (cases "open_input L (c_str src) (input_format L device) (option_entries L option)") auto
    show ?thesis
      using AVFormatContextPtr_run [OF O, of w]
      by (auto simp: wraps_def load_def split: if_splits)
  qed
  from packet frame graph codec format_fail format show ?thesis by blast
qed

theorem constructors_yield_complete_handles_witness:
  "(\<exists>this. fst (AVPacketPtr sample_ffmpeg empty_world) = Inr this \<and>
      wraps (snd (AVPacketPtr sample_ffmpeg empty_world)) this (Packet [])) \<and>
   (\<exists>this p cd ch. fst (AVCodecContextPtr sample_ffmpeg sample_params [] [] empty_world) = Inr (this, p) \<and>
      wraps (snd (AVCodecContextPtr sample_ffmpeg sample_params [] [] empty_world)) this
        (CodecContext \<lparr>codec = cd, par = Some sample_params, is_open = True, channels = ch\<rparr>)) \<and>
   (\<exists>this. fst (AVFormatContextPtr sample_ffmpeg ''a.wav'' [] [] empty_world) = Inr this \<and>
      wraps (snd (AVFormatContextPtr sample_ffmpeg ''a.wav'' [] [] empty_world)) this
        (FormatContext ''a.wav'' True)) \<and>
   fst (AVFilterGraphPtr no_memory_ffmpeg used_graph_world) =
     Inl (runtime_error ''Failed to allocate resouce.'') \<and>
   heap (snd (AVFilterGraphPtr no_memory_ffmpeg used_graph_world)) = heap used_graph_world \<and>
   fst (AVCodecContextPtr no_memory_ffmpeg sample_params [] [] used_graph_world) =
     Inl (runtime_error ''Failed to allocate CodecContext.'') \<and>
   heap (snd (AVCodecContextPtr no_memory_ffmpeg sample_params [] [] used_graph_world)) =
     heap used_graph_world \<and>
   fst (AVFormatContextPtr no_memory_ffmpeg ''a.wav'' [] [] used_graph_world) =
     Inl (std_runtime_error (open_error no_memory_ffmpeg ''a.wav'' (- 12))) \<and>
   heap (snd (AVFormatContextPtr no_memory_ffmpeg ''a.wav'' [] [] used_graph_world)) =
     heap used_graph_world"
proof -
  have p: "fst (AVPacketPtr sample_ffmpeg empty_world) = Inr \<lparr>ptr = Some 1\<rparr>"
    by code_simp
  have c: "fst (AVCodecContextPtr sample_ffmpeg sample_params [] [] empty_world) =
      Inr (\<lparr>ptr = Some 1\<rparr>, sample_params\<lparr>channel_layout := 3\<rparr>)"
    by code_simp
  have f: "fst (AVFormatContextPtr sample_ffmpeg ''a.wav'' [] [] empty_world) = Inr \<lparr>ptr = Some 1\<rparr>"
    by code_simp
  have m: "no_memory no_memory_ffmpeg used_graph_world"
    by (simp add: no_memory_ffmpeg_def)
  have d: "find_decoder no_memory_ffmpeg (codec_id sample_params) [] = Some 0"
    by (simp add: no_memory_ffmpeg_def sample_ffmpeg_def sample_params_def find_decoder_def)
  have o: "open_input no_memory_ffmpeg (c_str ''a.wav'') (input_format no_memory_ffmpeg [])
      (option_entries no_memory_ffmpeg []) = (- 12, [])"
    by (simp add: no_memory_ffmpeg_def option_entries_def)
  have s: "c_str ''a.wav'' = ''a.wav''"
    by (simp add: c_str_def)
  show ?thesis
    using p c f m d o s
      constructors_yield_complete_handles [of sample_ffmpeg empty_world sample_params "[]" "[]"
        "''a.wav''" "[]" "[]" 0 "[]"]
      constructors_yield_complete_handles [of no_memory_ffmpeg used_graph_world sample_params "[]" "[]"
        "''a.wav''" "[]" "[]" "- 12" "[]"]
    by simp blast
qed

subsection \<open>The channel layout\<close>

text \<open>
  C4, as stated: audio parameters without a channel layout have a non-zero layout after a
  successful construction. They need not: the layout written is whatever
  \<^verbatim>\<open>av_get_default_channel_layout\<close> returns for the channel count of the opened context,
  and that is 0 when the library has no default layout for the count, as for the nine
  channels here.
\<close>

theorem channel_layout_counterexample:
  "codec_type sample_params = AVMEDIA_TYPE_AUDIO \<and> channel_layout sample_params = 0 \<and>
   fst (AVCodecContextPtr nine_channel_decoder sample_params [] [] empty_world) =
     Inr (\<lparr>ptr = Some 1\<rparr>, sample_params) \<and>
   load (snd (AVCodecContextPtr nine_channel_decoder sample_params [] [] empty_world)) 1 =
     Some (CodecContext \<lparr>codec = 0, par = Some sample_params, is_open = True, channels = 9\<rparr>)"
  by code_simp

text \<open>
  C4, amended: after a successful construction, audio parameters whose channel layout was
  zero hold the library's default layout for the channel count of the opened context (hence
  a non-zero one exactly when the library has a default layout for that count), and nothing
  else in them has changed; parameters that had a layout, and parameters that are not audio,
  are unchanged.
\<close>

theorem channel_layout_backfill:
  assumes "fst (AVCodecContextPtr L pParam decoder_name decoder_option w) = Inr (this, p)"
  shows "\<exists>cd ch.
           wraps (snd (AVCodecContextPtr L pParam decoder_name decoder_option w)) this
             (CodecContext \<lparr>codec = cd, par = Some pParam, is_open = True, channels = ch\<rparr>) \<and>
           p = (if codec_type pParam = AVMEDIA_TYPE_AUDIO \<and> channel_layout pParam = 0
                then pParam\<lparr>channel_layout := av_get_default_channel_layout L ch\<rparr>
                else pParam)"
  using assms AVCodecContextPtr_outcome [of L pParam decoder_name w decoder_option] by blast

theorem channel_layout_backfill_witness:
  "fst (AVCodecContextPtr sample_ffmpeg sample_params [] [] empty_world) =
     Inr (\<lparr>ptr = Some 1\<rparr>, sample_params\<lparr>channel_layout := 3\<rparr>) \<and>
   (\<exists>cd ch.
      wraps (snd (AVCodecContextPtr sample_ffmpeg sample_params [] [] empty_world)) \<lparr>ptr = Some 1\<rparr>
        (CodecContext \<lparr>codec = cd, par = Some sample_params, is_open = True, channels = ch\<rparr>) \<and>
      sample_params\<lparr>channel_layout := 3\<rparr> =
        sample_params\<lparr>channel_layout := av_get_default_channel_layout sample_ffmpeg ch\<rparr>)"
proof -
  have h: "fst (AVCodecContextPtr sample_ffmpeg sample_params [] [] empty_world) =
      Inr (\<lparr>ptr = Some 1\<rparr>, sample_params\<lparr>channel_layout := 3\<rparr>)"
    by code_simp
  have a: "codec_type sample_params = AVMEDIA_TYPE_AUDIO \<and> channel_layout sample_params = 0"
    by (simp add: sample_params_def)
  show ?thesis
    using h a channel_layout_backfill [OF h] by simp
qed

subsection \<open>Unknown decoders\<close>

text \<open>
  C7, as stated: when a decoder name is given and the lookup finds nothing, the message of
  the error contains that name. It need not: the message is delivered as a C string, so for
  the name \<open>no\<close>, NUL, \<open>pe\<close> it ends after \<open>no\<close> and does not contain the name.
\<close>

theorem unsupported_codec_counterexample:
  "''no'' @ [CHR 0x00] @ ''pe'' \<noteq> [] \<and>
   avcodec_find_decoder_by_name sample_ffmpeg (c_str (''no'' @ [CHR 0x00] @ ''pe'')) = None \<and>
   AVCodecContextPtr sample_ffmpeg sample_params (''no'' @ [CHR 0x00] @ ''pe'') [] empty_world =
     (Inl (runtime_error (''Unsupported codec: '' @ dquote @ ''no'')), empty_world) \<and>
   \<not> sublist (''no'' @ [CHR 0x00] @ ''pe'') (''Unsupported codec: '' @ dquote @ ''no'')"
  by code_simp

text \<open>
  C7, amended: the decoder is looked up by name when a name is given and by the codec id of
  the parameters otherwise. When the lookup finds nothing, the constructor throws before
  anything is allocated. With a name given, the message is the text built from the name, up
  to the first NUL of the name: it contains the name as it was looked up (the name up to its
  first NUL), and for a name without NUL it is the whole text and contains the name as
  given. With no name given, the message contains the library's name for the codec id and
  the id in decimal. When the constructor succeeds, the context belongs to the decoder that
  this lookup returned.
\<close>

theorem unsupported_codec_error:
  "(decoder_name \<noteq> [] \<and> avcodec_find_decoder_by_name L (c_str decoder_name) = None \<longrightarrow>
      AVCodecContextPtr L pParam decoder_name decoder_option w =
        (Inl (runtime_error (c_str (unsupported_name decoder_name))), w) \<and>
      sublist (c_str decoder_name) (c_str (unsupported_name decoder_name)) \<and>
      (CHR 0x00 \<notin> set decoder_name \<longrightarrow>
         c_str (unsupported_name decoder_name) = unsupported_name decoder_name \<and>
         sublist decoder_name (unsupported_name decoder_name))) \<and>
   (decoder_name = [] \<and> avcodec_find_decoder L (codec_id pParam) = None \<longrightarrow>
      AVCodecContextPtr L pParam decoder_name decoder_option w =
        (Inl (runtime_error (unsupported_id L (codec_id pParam))), w) \<and>
      sublist (c_str (avcodec_get_name L (codec_id pParam))) (unsupported_id L (codec_id pParam)) \<and>
      sublist (show_int (codec_id pParam)) (unsupported_id L (codec_id pParam)) \<and>
      (0 \<le> codec_id pParam \<longrightarrow> int (read_nat (show_int (codec_id pParam))) = codec_id pParam)) \<and>
   (\<forall>this p. fst (AVCodecContextPtr L pParam decoder_name decoder_option w) = Inr (this, p) \<longrightarrow>
      (\<exists>c. wraps (snd (AVCodecContextPtr L pParam decoder_name decoder_option w)) this
               (CodecContext c) \<and>
           Some (codec c) =
             (if decoder_name = [] then avcodec_find_decoder L (codec_id pParam)
              else avcodec_find_decoder_by_name L (c_str decoder_name))))"
proof (intro conjI impI allI)
  assume A: "decoder_name \<noteq> [] \<and> avcodec_find_decoder_by_name L (c_str decoder_name) = None"
  then have "find_decoder L (codec_id pParam) decoder_name = None"
    by (simp add: find_decoder_def)
  with A show "AVCodecContextPtr L pParam decoder_name decoder_option w =
      (Inl (runtime_error (c_str (unsupported_name decoder_name))), w)"
    by (simp add: AVCodecContextPtr_not_found std_runtime_error_def)
  show "sublist (c_str decoder_name) (c_str (unsupported_name decoder_name))"
    unfolding unsupported_name_parts by (rule c_str_message(1) [OF unsupported_name_head])
  { assume clean: "CHR 0x00 \<notin> set decoder_name"
    have "CHR 0x00 \<notin> set (unsupported_name decoder_name)"
      unfolding unsupported_name_parts using clean unsupported_name_head
      by (simp add: dquote_def)
    then show "c_str (unsupported_name decoder_name) = unsupported_name decoder_name"
      by (rule c_str_no_nul)
    show "sublist decoder_name (unsupported_name decoder_name)"
      unfolding unsupported_name_parts by (rule sublist_middle) }
next
  assume A: "decoder_name = [] \<and> avcodec_find_decoder L (codec_id pParam) = None"
  then have "find_decoder L (codec_id pParam) decoder_name = None"
    by (simp add: find_decoder_def)
  with A show "AVCodecContextPtr L pParam decoder_name decoder_option w =
      (Inl (runtime_error (unsupported_id L (codec_id pParam))), w)"
    by (simp add: AVCodecContextPtr_not_found std_runtime_error_unsupported_id)
  show "sublist (c_str (avcodec_get_name L (codec_id pParam))) (unsupported_id L (codec_id pParam))"
    unfolding unsupported_id_def
    using sublist_middle [of "c_str (avcodec_get_name L (codec_id pParam))"
        "''Unsupported codec: '' @ dquote"
        "dquote @ '', ('' @ show_int (codec_id pParam) @ '').''"]
    by simp
  show "sublist (show_int (codec_id pParam)) (unsupported_id L (codec_id pParam))"
    unfolding unsupported_id_def
    using sublist_middle [of "show_int (codec_id pParam)"
        "''Unsupported codec: '' @ dquote @ c_str (avcodec_get_name L (codec_id pParam)) @ dquote @ '', (''"
        "'').''"]
    by simp
  { assume "0 \<le> codec_id pParam"
    then show "int (read_nat (show_int (codec_id pParam))) = codec_id pParam"
      by (simp add: show_int_def read_show_nat) }
next
  fix this p
  assume "fst (AVCodecContextPtr L pParam decoder_name decoder_option w) = Inr (this, p)"
  then obtain cd ch where
    "find_decoder L (codec_id pParam) decoder_name = Some cd"
    "wraps (snd (AVCodecContextPtr L pParam decoder_name decoder_option w)) this
       (CodecContext \<lparr>codec = cd, par = Some pParam, is_open = True, channels = ch\<rparr>)"
    using AVCodecContextPtr_outcome [of L pParam decoder_name w decoder_option] by blast
  then show "\<exists>c. wraps (snd (AVCodecContextPtr L pParam decoder_name decoder_option w)) this
               (CodecContext c) \<and>
           Some (codec c) =
             (if decoder_name = [] then avcodec_find_decoder L (codec_id pParam)
              else avcodec_find_decoder_by_name L (c_str decoder_name))"
    by (intro exI [of _ "\<lparr>codec = cd, par = Some pParam, is_open = True, channels = ch\<rparr>"])
       (simp add: find_decoder_def split: if_splits)
qed

theorem unsupported_codec_error_witness:
  "AVCodecContextPtr sample_ffmpeg sample_params ''nope'' [] empty_world =
     (Inl (runtime_error (''Unsupported codec: '' @ dquote @ ''nope'' @ dquote @ ''.'')), empty_world) \<and>
   AVCodecContextPtr sample_ffmpeg (sample_params\<lparr>codec_id := 1207\<rparr>) [] [] empty_world =
     (Inl (runtime_error (''Unsupported codec: '' @ dquote @ ''unknown_codec'' @ dquote @
             '', (1207).'')), empty_world) \<and>
   (\<exists>c. wraps (snd (AVCodecContextPtr sample_ffmpeg sample_params ''pcm_s16le'' [] empty_world))
           \<lparr>ptr = Some 1\<rparr> (CodecContext c) \<and> codec c = 0)"
proof -
  have n: "''nope'' \<noteq> [] \<and> avcodec_find_decoder_by_name sample_ffmpeg (c_str ''nope'') = None"
    by (simp add: sample_ffmpeg_def c_str_def)
  have z: "CHR 0x00 \<notin> set ''nope''"
    by simp
  have i: "[] = ([] :: string) \<and>
      avcodec_find_decoder sample_ffmpeg (codec_id (sample_params\<lparr>codec_id := 1207\<rparr>)) = None"
    by (simp add: sample_ffmpeg_def)
  have m: "unsupported_name ''nope'' = ''Unsupported codec: '' @ dquote @ ''nope'' @ dquote @ ''.''"
    "unsupported_id sample_ffmpeg (codec_id (sample_params\<lparr>codec_id := 1207\<rparr>)) =
       ''Unsupported codec: '' @ dquote @ ''unknown_codec'' @ dquote @ '', (1207).''"
    by code_simp+
  have s: "fst (AVCodecContextPtr sample_ffmpeg sample_params ''pcm_s16le'' [] empty_world) =
      Inr (\<lparr>ptr = Some 1\<rparr>, sample_params\<lparr>channel_layout := 3\<rparr>)"
    by code_simp
  have d: "avcodec_find_decoder_by_name sample_ffmpeg (c_str ''pcm_s16le'') = Some 0"
    by (simp add: sample_ffmpeg_def c_str_def)
  note T1 = unsupported_codec_error [of "''nope''" sample_ffmpeg sample_params "[]" empty_world]
  note T2 = unsupported_codec_error [of "[]" sample_ffmpeg "sample_params\<lparr>codec_id := 1207\<rparr>" "[]"
      empty_world]
  note T3 = unsupported_codec_error [of "''pcm_s16le''" sample_ffmpeg sample_params "[]" empty_world]
  from T1 n z have r1: "AVCodecContextPtr sample_ffmpeg sample_params ''nope'' [] empty_world =
      (Inl (runtime_error (unsupported_name ''nope'')), empty_world)"
    by metis
  from T2 i have r2: "AVCodecContextPtr sample_ffmpeg (sample_params\<lparr>codec_id := 1207\<rparr>) [] []
      empty_world =
      (Inl (runtime_error (unsupported_id sample_ffmpeg (codec_id (sample_params\<lparr>codec_id := 1207\<rparr>)))),
       empty_world)"
    by blast
  from T3 s obtain c where
    "wraps (snd (AVCodecContextPtr sample_ffmpeg sample_params ''pcm_s16le'' [] empty_world))
       \<lparr>ptr = Some 1\<rparr> (CodecContext c)"
    "Some (codec c) = (if ''pcm_s16le'' = [] then avcodec_find_decoder sample_ffmpeg (codec_id sample_params)
       else avcodec_find_decoder_by_name sample_ffmpeg (c_str ''pcm_s16le''))"
    by blast
  then have r3: "\<exists>c. wraps (snd (AVCodecContextPtr sample_ffmpeg sample_params ''pcm_s16le'' [] empty_world))
           \<lparr>ptr = Some 1\<rparr> (CodecContext c) \<and> codec c = 0"
    using d by auto
  from r1 r2 r3 show ?thesis
    unfolding m by blast
qed

subsection \<open>Resetting a filter graph\<close>

text \<open>
  C8, as stated: in every prior state, reset discards the current graph and installs a new,
  empty one. It does not when the allocation of the new graph returns null: reset throws,
  and the handle keeps its graph with the filter in it.
\<close>

theorem reset_counterexample:
  "graph_handle used_graph_world \<lparr>ptr = Some 1\<rparr> \<and>
   reset one_object_memory \<lparr>ptr = Some 1\<rparr> used_graph_world =
     (Inl (runtime_error ''Failed to allocate resouce.''),
      \<lparr>heap = [(1, FilterGraph [''aresample''])], calls = [(''avfilter_graph_alloc'', None)]\<rparr>)"
  by code_simp

text \<open>
  C8, amended: for a handle that is null or owns a live graph, reset first allocates. When
  the allocation succeeds, the same handle object now points to a newly allocated graph
  without filters at an address that was not live, the old graph (if any) is freed, and every
  other object is untouched, so the handle is not null. When the allocation returns null,
  reset throws the allocation error and the heap, hence the handle's graph, is as before.
\<close>

theorem reset_installs_fresh_graph:
  assumes "graph_handle w this"
  shows "(\<not> no_memory L w \<longrightarrow>
            (\<exists>a. fst (reset L this w) = Inr (this\<lparr>ptr := Some a\<rparr>) \<and>
                 a \<notin> live w \<and>
                 load (snd (reset L this w)) a = Some (FilterGraph []) \<and>
                 (\<forall>old. ptr this = Some old \<longrightarrow> load (snd (reset L this w)) old = None) \<and>
                 (\<forall>b. b \<noteq> a \<and> ptr this \<noteq> Some b \<longrightarrow>
                    load (snd (reset L this w)) b = load w b))) \<and>
         (no_memory L w \<longrightarrow>
            fst (reset L this w) = Inl (runtime_error ''Failed to allocate resouce.'') \<and>
            heap (snd (reset L this w)) = heap w)"
proof (intro conjI impI)
  assume mem: "\<not> no_memory L w"
  let ?a = "fresh (heap w)"
  let ?w1 = "log ''avfilter_graph_alloc'' (Some ?a) (w\<lparr>heap := (?a, FilterGraph []) # heap w\<rparr>)"
  have run: "reset L this w =
      (Inr (this\<lparr>ptr := Some ?a\<rparr>),
       (case ptr this of None \<Rightarrow> ?w1
        | Some old \<Rightarrow> log ''avfilter_graph_free'' (Some old) (release (Some old) ?w1)))"
    using mem
    by (simp add: reset_def bind_def get_filter_graph_run unique_ptr_reset_def Let_def
        AVFilterGraphDeleter_def avfilter_graph_free_def native_free_def split: option.splits)
  have old_live: "old \<noteq> ?a" if "ptr this = Some old" for old
    using assms that load_fresh [of w]
    by (auto simp: graph_handle_def split: option.splits native.splits)
  show "\<exists>a. fst (reset L this w) = Inr (this\<lparr>ptr := Some a\<rparr>) \<and>
           a \<notin> live w \<and>
           load (snd (reset L this w)) a = Some (FilterGraph []) \<and>
           (\<forall>old. ptr this = Some old \<longrightarrow> load (snd (reset L this w)) old = None) \<and>
           (\<forall>b. b \<noteq> a \<and> ptr this \<noteq> Some b \<longrightarrow> load (snd (reset L this w)) b = load w b)"
  proof (intro exI [of _ ?a] conjI allI impI)
    show "fst (reset L this w) = Inr (this\<lparr>ptr := Some ?a\<rparr>)"
      by (simp add: run)
    show "?a \<notin> live w"
      by (rule not_live_fresh)
    show "load (snd (reset L this w)) ?a = Some (FilterGraph [])"
      using old_live
      by (cases "ptr this") (auto simp: run load_log load_release load_cons)
    show "load (snd (reset L this w)) old = None" if "ptr this = Some old" for old
      using that by (simp add: run load_log load_release)
    show "load (snd (reset L this w)) b = load w b" if "b \<noteq> ?a \<and> ptr this \<noteq> Some b" for b
      using that
      by (cases "ptr this") (auto simp: run load_log load_release load_cons)
  qed
next
  assume mem: "no_memory L w"
  then have run: "reset L this w =
      (Inl (runtime_error ''Failed to allocate resouce.''), log ''avfilter_graph_alloc'' None w)"
    by (simp add: reset_def bind_def get_filter_graph_run)
  show "fst (reset L this w) = Inl (runtime_error ''Failed to allocate resouce.'')"
    by (simp add: run)
  show "heap (snd (reset L this w)) = heap w"
    by (simp add: run heap_log)
qed

theorem reset_installs_fresh_graph_witness:
  "graph_handle used_graph_world \<lparr>ptr = Some 1\<rparr> \<and>
   \<not> no_memory sample_ffmpeg used_graph_world \<and>
   (\<exists>a. fst (reset sample_ffmpeg \<lparr>ptr = Some 1\<rparr> used_graph_world) = Inr \<lparr>ptr = Some a\<rparr> \<and>
        a \<notin> live used_graph_world \<and>
        load (snd (reset sample_ffmpeg \<lparr>ptr = Some 1\<rparr> used_graph_world)) a = Some (FilterGraph []) \<and>
        load (snd (reset sample_ffmpeg \<lparr>ptr = Some 1\<rparr> used_graph_world)) 1 = None)"
proof -
  have g: "graph_handle used_graph_world \<lparr>ptr = Some 1\<rparr>"
    by (simp add: graph_handle_def used_graph_world_def load_def)
  have m: "\<not> no_memory sample_ffmpeg used_graph_world"
    by (simp add: sample_ffmpeg_def)
  show ?thesis
    using g m reset_installs_fresh_graph [OF g, of sample_ffmpeg] by simp blast
qed

subsection \<open>The packet guard\<close>

text \<open>
  C9: for a handle that wraps a packet, building the guard calls nothing, and destroying it
  makes exactly one library call, \<^verbatim>\<open>av_packet_unref\<close> on that packet. Afterwards the handle
  wraps the same packet, blank as after its allocation; the set of live objects is the same
  (nothing allocated, nothing freed), and no other object has changed.
\<close>

theorem packet_guard_only_unrefs:
  assumes "wraps w p (Packet bufs)"
  shows "AutoPacketUnref p w = (Inr \<lparr>packet_ref = p\<rparr>, w) \<and>
         (\<exists>a w'. ptr p = Some a \<and>
            AutoPacketUnref_dtor \<lparr>packet_ref = p\<rparr> w = (Inr (), w') \<and>
            calls w' = calls w @ [(''av_packet_unref'', Some a)] \<and>
            wraps w' p (Packet []) \<and>
            live w' = live w \<and>
            (\<forall>b. b \<noteq> a \<longrightarrow> load w' b = load w b))"
proof -
  from assms obtain a where a: "ptr p = Some a" and l: "load w a = Some (Packet bufs)"
    by (auto simp: wraps_def split: option.splits)
  let ?w' = "log ''av_packet_unref'' (Some a) (store a (Packet []) w)"
  have run: "AutoPacketUnref_dtor \<lparr>packet_ref = p\<rparr> w = (Inr (), ?w')"
    using a l by (simp add: AutoPacketUnref_dtor_def av_packet_unref_def packet_def bind_def)
  have "calls ?w' = calls w @ [(''av_packet_unref'', Some a)]"
    by (simp add: log_def store_def)
  moreover have "wraps ?w' p (Packet [])"
    using a by (simp add: wraps_def load_log load_store)
  moreover have "live ?w' = live w"
    using l by (auto simp: live_dom load_log load_store split: if_splits)
  moreover have "\<forall>b. b \<noteq> a \<longrightarrow> load ?w' b = load w b"
    by (simp add: load_log load_store)
  ultimately show ?thesis
    using a run by (simp add: AutoPacketUnref_def ok_def)
qed

theorem packet_guard_only_unrefs_witness:
  "wraps \<lparr>heap = [(1, Packet [7, 8])], calls = []\<rparr> \<lparr>ptr = Some 1\<rparr> (Packet [7, 8]) \<and>
   AutoPacketUnref_dtor \<lparr>packet_ref = \<lparr>ptr = Some 1\<rparr>\<rparr> \<lparr>heap = [(1, Packet [7, 8])], calls = []\<rparr> =
     (Inr (), \<lparr>heap = [(1, Packet [])], calls = [(''av_packet_unref'', Some 1)]\<rparr>) \<and>
   (\<exists>a w'. AutoPacketUnref_dtor \<lparr>packet_ref = \<lparr>ptr = Some 1\<rparr>\<rparr>
              \<lparr>heap = [(1, Packet [7, 8])], calls = []\<rparr> = (Inr (), w') \<and>
            calls w' = [(''av_packet_unref'', Some a)] \<and> wraps w' \<lparr>ptr = Some 1\<rparr> (Packet []))"
proof -
  have h: "wraps \<lparr>heap = [(1, Packet [7, 8])], calls = []\<rparr> \<lparr>ptr = Some 1\<rparr> (Packet [7, 8])"
    by (simp add: wraps_def load_def)
  have e: "AutoPacketUnref_dtor \<lparr>packet_ref = \<lparr>ptr = Some 1\<rparr>\<rparr> \<lparr>heap = [(1, Packet [7, 8])], calls = []\<rparr> =
     (Inr (), \<lparr>heap = [(1, Packet [])], calls = [(''av_packet_unref'', Some 1)]\<rparr>)"
    by code_simp
  show ?thesis
    using h e packet_guard_only_unrefs [OF h] by simp
qed

end
